theory Spec2Isabelle
  imports Main "HOL-Library.Sublist"
begin

section \<open>Python values\<close>

text \<open>
  A Python \<open>str\<close> is a sequence of Unicode code points. The source uses code points
  beyond Latin-1 (the euro sign, the bullet, emoji), so a character is its code point, a
  natural number, and a string is a list of them. \<open>s2p\<close> reads an ASCII literal.
\<close>

type_synonym pychar = nat
type_synonym pystr = "pychar list"

definition s2p :: "string \<Rightarrow> pystr" where
  "s2p s = map of_char s"

text \<open>
  The characters \<open>str.isspace\<close> accepts; \<open>str.strip()\<close> without argument removes
  exactly these, and \<open>\s\<close> in a \<open>str\<close> pattern of \<open>re\<close> matches exactly these.
\<close>

definition is_space :: "pychar \<Rightarrow> bool" where
  "is_space c \<longleftrightarrow>
     (9 \<le> c \<and> c \<le> 13) \<or> (28 \<le> c \<and> c \<le> 32) \<or> c = 133 \<or> c = 160 \<or> c = 5760 \<or>
     (8192 \<le> c \<and> c \<le> 8202) \<or> c = 8232 \<or> c = 8233 \<or> c = 8239 \<or> c = 8287 \<or>
     c = 12288"

definition strip :: "pystr \<Rightarrow> pystr" where
  "strip s = rev (dropWhile is_space (rev (dropWhile is_space s)))"

text \<open>\<open>sep.join(xs)\<close>\<close>

fun join :: "pystr \<Rightarrow> pystr list \<Rightarrow> pystr" where
  "join sep [] = []"
| "join sep [x] = x"
| "join sep (x # y # ys) = x @ sep @ join sep (y # ys)"

text \<open>\<open>kw in s\<close> on strings: \<open>kw\<close> occurs in \<open>s\<close> as a contiguous substring.\<close>

fun str_contains :: "pystr \<Rightarrow> pystr \<Rightarrow> bool" where
  "str_contains kw [] = (kw = [])"
| "str_contains kw (c # cs) = (take (length kw) (c # cs) = kw \<or> str_contains kw cs)"

text \<open>
  The values \<open>json.loads\<close> and \<open>response.json()\<close> produce. A float is \<open>m * 2 ^ e\<close>,
  an infinity or a NaN; only its truth value is ever used. An object is a \<open>dict\<close>
  with string keys, kept as an association list.
\<close>

datatype pyfloat = Finite int int | Infinity bool | NaN

datatype json =
    JNull
  | JBool bool
  | JInt int
  | JFloat pyfloat
  | JStr pystr
  | JArr "json list"
  | JObj "(pystr \<times> json) list"

text \<open>Python's truth value of such a value (\<open>if v:\<close>, \<open>v or d\<close>, \<open>not v\<close>).\<close>

fun truthy :: "json \<Rightarrow> bool" where
  "truthy JNull = False"
| "truthy (JBool b) = b"
| "truthy (JInt n) = (n \<noteq> 0)"
| "truthy (JFloat (Finite m e)) = (m \<noteq> 0)"
| "truthy (JFloat (Infinity s)) = True"
| "truthy (JFloat NaN) = True"
| "truthy (JStr s) = (s \<noteq> [])"
| "truthy (JArr xs) = (xs \<noteq> [])"
| "truthy (JObj kvs) = (kvs \<noteq> [])"

text \<open>\<open>a or b\<close>\<close>

definition py_or :: "json \<Rightarrow> json \<Rightarrow> json" where
  "py_or a b = (if truthy a then a else b)"

text \<open>\<open>d.get(k)\<close> and \<open>d.get(k, default)\<close> on a \<open>dict\<close>.\<close>

definition dict_get :: "(pystr \<times> json) list \<Rightarrow> pystr \<Rightarrow> json \<Rightarrow> json" where
  "dict_get kvs k d = (case map_of kvs k of None \<Rightarrow> d | Some v \<Rightarrow> v)"

text \<open>
  Exceptions, all subclasses of \<open>Exception\<close>. \<open>ValueError\<close> carries the message the
  source raises it with; \<open>ExternalError\<close> is whatever an external call raised (an HTTP
  error, a timeout, a decoding error, an I/O error).
\<close>

datatype exn =
    ValueError pystr
  | TypeError
  | AttributeError
  | KeyError
  | IndexError
  | ExternalError pystr

section \<open>The world outside the two modules\<close>

text \<open>
  Built-ins and external services the source calls; none of them is code of the
  repository, so each is a parameter:
  \<^item> \<open>str_lower\<close>: \<open>str.lower\<close> (full Unicode lower-casing, not character-wise);
  \<^item> \<open>isdecimal\<close>: the characters \<open>\d\<close> matches in a \<open>str\<close> pattern;
  \<^item> \<open>py_repr\<close>: \<open>str(v)\<close> of a value that is not a string;
  \<^item> \<open>exc_text\<close>: \<open>str(e)\<close> of an exception the source did not raise itself;
  \<^item> \<open>json_loads\<close>: \<open>json.loads\<close>, \<open>Inl\<close> when it raises;
  \<^item> \<open>variables_get\<close>: \<open>lexia.Variables(vs).get(name)\<close>;
  \<^item> \<open>chat_create\<close>: \<open>client.chat.completions.create\<close> with the API key, the model
    and the messages, returning the \<open>message.content\<close> of each choice;
  \<^item> \<open>open_write\<close>: writing a text file, \<open>Some e\<close> when it raises;
  \<^item> \<open>requests_post\<close>: \<open>requests.post(url, headers, json)\<close>, \<open>raise_for_status()\<close>
    and \<open>.json()\<close>, given the URL, the API key and the payload.
\<close>

type_synonym variable = "pystr \<times> pystr"

record world =
  str_lower :: "pystr \<Rightarrow> pystr"
  isdecimal :: "pychar \<Rightarrow> bool"
  py_repr :: "json \<Rightarrow> pystr"
  exc_text :: "exn \<Rightarrow> pystr"
  json_loads :: "pystr \<Rightarrow> exn + json"
  variables_get :: "variable list \<Rightarrow> pystr \<Rightarrow> pystr option"
  chat_create :: "pystr \<Rightarrow> pystr \<Rightarrow> (pystr \<times> pystr) list \<Rightarrow> exn + pystr option list"
  open_write :: "pystr \<Rightarrow> pystr \<Rightarrow> exn option"
  requests_post :: "pystr \<Rightarrow> pystr \<Rightarrow> json \<Rightarrow> exn + json"

text \<open>\<open>str(v)\<close>, also what an f-string does with \<open>{v}\<close>.\<close>

fun py_str :: "world \<Rightarrow> json \<Rightarrow> pystr" where
  "py_str w (JStr s) = s"
| "py_str w v = py_repr w v"

text \<open>\<open>str(e)\<close>\<close>

fun exn_str :: "world \<Rightarrow> exn \<Rightarrow> pystr" where
  "exn_str w (ValueError m) = m"
| "exn_str w (ExternalError m) = m"
| "exn_str w e = exc_text w e"

section \<open>main.py: \<open>_extract_json_array\<close>\<close>

text \<open>
  \<open>re.search(r"\[.*\]", text, re.DOTALL)\<close>: the leftmost match starts at the first
  \<open>[\<close> that has a \<open>]\<close> after it, which is the first \<open>[\<close> of the text or none; the
  greedy \<open>.*\<close> (any character, newlines too) runs to the last \<open>]\<close>.
\<close>

definition re_search_bracket :: "pystr \<Rightarrow> pystr option" where
  "re_search_bracket text =
     (let rest = dropWhile (\<lambda>c. c \<noteq> 91) text
      in if rest = [] \<or> 93 \<notin> set rest then None
         else Some (rev (dropWhile (\<lambda>c. c \<noteq> 93) (rev rest))))"

text \<open>
  \<^verbatim>\<open>
  try:
      return _json.loads(text)
  except Exception:
      match = re.search(r"\[.*\]", text, re.DOTALL)
      if match:
          try:
              return _json.loads(match.group(0))
          except Exception:
              return []
      return []
  \<close>
  The result is \<open>Inl\<close> where an exception would leave the function.
\<close>

definition extract_json_array :: "world \<Rightarrow> pystr \<Rightarrow> exn + json" where
  "extract_json_array w text =
     (case json_loads w text of
        Inr v \<Rightarrow> Inr v
      | Inl e \<Rightarrow>
          (case re_search_bracket text of
             Some m \<Rightarrow>
               (case json_loads w m of
                  Inr v \<Rightarrow> Inr v
                | Inl e' \<Rightarrow> Inr (JArr []))
           | None \<Rightarrow> Inr (JArr [])))"


section \<open>main.py: the normalisation of the model's answer\<close>

text \<open>\<open>str(n)\<close> of a natural number, as an f-string prints \<open>{len(xs)}\<close> or \<open>{i}\<close>.\<close>

fun show_nat :: "nat \<Rightarrow> pystr" where
  "show_nat n = (if n < 10 then [48 + n] else show_nat (n div 10) @ [48 + n mod 10])"

text \<open>\<open>if not isinstance(ingredients, list): ingredients = []\<close>\<close>

fun as_list :: "json \<Rightarrow> json list" where
  "as_list (JArr xs) = xs"
| "as_list v = []"

text \<open>
  \<^verbatim>\<open>
  if isinstance(item, str):
      name = item.strip()
  elif isinstance(item, dict) and "name" in item:
      name = str(item["name"]).strip()
  else:
      continue
  \<close>
  \<open>None\<close> is the \<open>continue\<close>.
\<close>

fun item_name :: "world \<Rightarrow> json \<Rightarrow> pystr option" where
  "item_name w (JStr s) = Some (strip s)"
| "item_name w (JObj kvs) =
     (case map_of kvs (s2p ''name'') of
        Some v \<Rightarrow> Some (strip (py_str w v))
      | None \<Rightarrow> None)"
| "item_name w v = None"

text \<open>
  The loop over \<open>ingredients\<close>, with its two variables \<open>seen\<close> and \<open>normalized\<close>:
  \<^verbatim>\<open>
  if name and name.lower() not in seen:
      seen.add(name.lower())
      normalized.append(name)
  \<close>
\<close>

fun normalize_loop :: "world \<Rightarrow> json list \<Rightarrow> pystr set \<Rightarrow> pystr list \<Rightarrow> pystr list" where
  "normalize_loop w [] seen normalized = normalized"
| "normalize_loop w (item # items) seen normalized =
     (case item_name w item of
        None \<Rightarrow> normalize_loop w items seen normalized
      | Some name \<Rightarrow>
          if name \<noteq> [] \<and> str_lower w name \<notin> seen
          then normalize_loop w items (insert (str_lower w name) seen) (normalized @ [name])
          else normalize_loop w items seen normalized)"

definition normalize_items :: "world \<Rightarrow> json \<Rightarrow> pystr list" where
  "normalize_items w ingredients = normalize_loop w (as_list ingredients) {} []"

section \<open>search\_handler.py: \<open>serper_first_link\<close>\<close>

text \<open>
  What \<open>process_message\<close> does to the outside, in order: the calls to the conversation
  manager, to the three sinks of the Lexia handler, to the language model, to the file
  system and to the search provider. The sinks and the conversation manager have no
  failure outcome in their interface, so a call to them is an event and nothing else;
  \<open>get_history\<close> only reads, and its result is not used.
\<close>

datatype event =
    AddMessage pystr pystr pystr
  | StreamChunk pystr
  | CompleteResponse pystr
  | SendError pystr
  | ModelRequest pystr "(pystr \<times> pystr) list"
  | FileWrite pystr pystr
  | SearchRequest pystr json

definition SERPER_API_KEY :: pystr where
  "SERPER_API_KEY = s2p ''SERPER_API_KEY''"

definition serper_key_missing :: pystr where
  "serper_key_missing =
     s2p ''Serper API key not found in variables. Please add SERPER_API_KEY to your agent configuration.''"

definition search_url :: pystr where
  "search_url = s2p ''https://google.serper.dev/search''"

text \<open>
  \<^verbatim>\<open>
  organic = data.get("organic") or []
  if not organic:
      return None
  return organic[0].get("link")
  \<close>
  \<open>data.get\<close> exists on a \<open>dict\<close> only; \<open>organic[0]\<close> of a non-empty string is its
  first character, of a non-empty \<open>dict\<close> a \<open>KeyError\<close> (its keys are strings), of a
  number a \<open>TypeError\<close>.
\<close>

fun first_item :: "json \<Rightarrow> exn + json" where
  "first_item (JArr xs) = (case xs of [] \<Rightarrow> Inl IndexError | x # _ \<Rightarrow> Inr x)"
| "first_item (JStr s) = (case s of [] \<Rightarrow> Inl IndexError | c # _ \<Rightarrow> Inr (JStr [c]))"
| "first_item (JObj kvs) = Inl KeyError"
| "first_item v = Inl TypeError"

fun get_link :: "json \<Rightarrow> exn + json" where
  "get_link (JObj kvs) = Inr (dict_get kvs (s2p ''link'') JNull)"
| "get_link v = Inl AttributeError"

fun first_link_of :: "json \<Rightarrow> exn + json" where
  "first_link_of (JObj kvs) =
     (let organic = py_or (dict_get kvs (s2p ''organic'') JNull) (JArr [])
      in if \<not> truthy organic then Inr JNull
         else (case first_item organic of
                 Inl e \<Rightarrow> Inl e
               | Inr x \<Rightarrow> get_link x))"
| "first_link_of v = Inl AttributeError"

text \<open>
  The function returns the request it made, if it made one, beside its result; the
  result is \<open>Inl\<close> where it raises, \<open>Inr JNull\<close> where it returns \<open>None\<close>.
\<close>

definition serper_first_link ::
  "world \<Rightarrow> pystr \<Rightarrow> variable list \<Rightarrow> event list \<times> (exn + json)" where
  "serper_first_link w query vs =
     (case variables_get w vs SERPER_API_KEY of
        None \<Rightarrow> ([], Inl (ValueError serper_key_missing))
      | Some api_key \<Rightarrow>
          if api_key = [] then ([], Inl (ValueError serper_key_missing))
          else
            (let payload = JObj [(s2p ''q'', JStr query), (s2p ''num'', JInt 5)]
             in ([SearchRequest search_url payload],
                 (case requests_post w search_url api_key payload of
                    Inl e \<Rightarrow> Inl e
                  | Inr data \<Rightarrow> first_link_of data))))"

section \<open>main.py: \<open>process_message\<close>\<close>

record chat_message =
  thread_id :: pystr
  message :: pystr
  response_uuid :: pystr
  model :: pystr
  variables :: "variable list"

definition OPENAI_API_KEY :: pystr where
  "OPENAI_API_KEY = s2p ''OPENAI_API_KEY''"

definition missing_key_msg :: pystr where
  "missing_key_msg =
     s2p ''Sorry, the OpenAI API key is missing or empty. From menu right go to admin mode, then agents and edit the agent in last section you can set the openai key.''"

definition analysing_msg :: pystr where
  "analysing_msg = [128270] @ s2p '' Analizando tu mensaje...'' @ [10]"

definition greetings :: "pystr list" where
  "greetings =
     [s2p ''hi'', s2p ''hello'', s2p ''hola'', s2p ''hey'', s2p ''buenas'',
      s2p ''buenos d'' @ [237] @ s2p ''as'', s2p ''buenas tardes'', s2p ''buenas noches'']"

definition greet_reply :: pystr where
  "greet_reply =
     [128075] @ s2p '' Hola, dime qu'' @ [233] @ s2p '' plato quieres preparar (por ejemplo: ''
     @ [39] @ s2p ''tortilla de patata'' @ [39] @ s2p '').''"

definition sys_prompt :: pystr where
  "sys_prompt =
     s2p ''You are a culinary assistant. When the user mentions a dish, ''
     @ s2p ''extract a concise list of core grocery ingredients needed to make it. ''
     @ s2p ''Respond ONLY with a valid JSON array of strings in Spanish where appropriate, ''
     @ s2p ''no extra text. Keep common items simple (e.g., '' @ [39] @ s2p ''huevos'' @ [39]
     @ s2p '', '' @ [39] @ s2p ''patatas'' @ [39] @ s2p '', '' @ [39] @ s2p ''cebolla'' @ [39]
     @ s2p '', '' @ [39] @ s2p ''aceite de oliva'' @ [39] @ s2p '', '' @ [39] @ s2p ''sal''
     @ [39] @ s2p '').''"

definition no_ingredients_msg :: pystr where
  "no_ingredients_msg =
     s2p ''No pude identificar ingredientes. Por favor, especifica el plato con m'' @ [225]
     @ s2p ''s detalle.''"

definition target_path :: pystr where
  "target_path = s2p ''/tmp/ingredients.txt''"

definition detected_header :: pystr where
  "detected_header = [127859] @ s2p '' Ingredientes detectados:''"

definition saved_msg :: "nat \<Rightarrow> pystr" where
  "saved_msg n =
     [10, 128450, 65039] @ s2p '' Guardados '' @ show_nat n
     @ s2p '' ingredientes en ingredients.txt'' @ [10, 10]"

definition results_header :: pystr where
  "results_header = [128722] @ s2p '' Enlaces de Carrefour por ingrediente:''"

definition progress_chunk :: "pystr \<Rightarrow> pystr" where
  "progress_chunk ing = [128270] @ s2p '' Buscando en Carrefour: '' @ ing @ [10]"

definition found_chunk :: "world \<Rightarrow> pystr \<Rightarrow> json \<Rightarrow> pystr" where
  "found_chunk w ing link = [10145, 65039, 32] @ ing @ s2p '': '' @ py_str w link @ [10]"

definition found_line :: "world \<Rightarrow> pystr \<Rightarrow> json \<Rightarrow> pystr" where
  "found_line w ing link = s2p ''- '' @ ing @ s2p '': '' @ py_str w link"

definition not_found_chunk :: "pystr \<Rightarrow> pystr" where
  "not_found_chunk ing = [10145, 65039, 32] @ ing @ s2p '': No encontrado'' @ [10]"

definition not_found_line :: "pystr \<Rightarrow> pystr" where
  "not_found_line ing = s2p ''- '' @ ing @ s2p '': No encontrado''"

text \<open>
  The link the loop works with for one ingredient: the result of \<open>serper_first_link\<close>,
  or \<open>None\<close> when it raised (\<open>except Exception: link = None\<close>).
\<close>

definition item_link :: "world \<Rightarrow> variable list \<Rightarrow> pystr \<Rightarrow> json" where
  "item_link w vs ing =
     (case snd (serper_first_link w (ing @ s2p '' site:carrefour.es'') vs) of
        Inl e \<Rightarrow> JNull
      | Inr link \<Rightarrow> link)"

text \<open>
  \<^verbatim>\<open>
  for ing in normalized:
      query = f"{ing} site:carrefour.es"
      try:
          lexia.stream_chunk(data, f"... Buscando en Carrefour: {ing}\n")
          link = serper_first_link(query, data.variables)
      except Exception as e:
          link = None
      if link:
          lexia.stream_chunk(data, f"... {ing}: {link}\n")
          results_lines.append(f"- {ing}: {link}")
      else:
          lexia.stream_chunk(data, f"... {ing}: No encontrado\n")
          results_lines.append(f"- {ing}: No encontrado")
  \<close>
  The state of the loop is the trace so far and \<open>results_lines\<close>.
\<close>

fun search_loop ::
  "world \<Rightarrow> variable list \<Rightarrow> pystr list \<Rightarrow> event list \<times> pystr list \<Rightarrow> event list \<times> pystr list" where
  "search_loop w vs [] (tr, results_lines) = (tr, results_lines)"
| "search_loop w vs (ing # ings) (tr, results_lines) =
     (let query = ing @ s2p '' site:carrefour.es'';
          tr1 = tr @ [StreamChunk (progress_chunk ing)];
          (calls, r) = serper_first_link w query vs;
          link = (case r of Inl e \<Rightarrow> JNull | Inr l \<Rightarrow> l);
          tr2 = tr1 @ calls
      in if truthy link
         then search_loop w vs ings
                (tr2 @ [StreamChunk (found_chunk w ing link)],
                 results_lines @ [found_line w ing link])
         else search_loop w vs ings
                (tr2 @ [StreamChunk (not_found_chunk ing)],
                 results_lines @ [not_found_line ing]))"

text \<open>
  \<^verbatim>\<open>
  final_response = "\n".join([
      "... Ingredientes detectados:",
      "- " + "\n- ".join(normalized),
      "",
      "\n".join(results_lines)
  ])
  \<close>
\<close>

definition final_response :: "pystr list \<Rightarrow> pystr list \<Rightarrow> pystr" where
  "final_response normalized results_lines =
     join [10]
       [detected_header,
        s2p ''- '' @ join ([10] @ s2p ''- '') normalized,
        [],
        join [10] results_lines]"

text \<open>The two calls of the branch \<open>if not openai_api_key\<close>, and its \<open>return\<close>.\<close>

definition missing_key_reply :: "event list \<times> exn option" where
  "missing_key_reply =
     ([StreamChunk missing_key_msg, CompleteResponse missing_key_msg], None)"

text \<open>The messages of the request to the model.\<close>

definition chat_messages :: "chat_message \<Rightarrow> (pystr \<times> pystr) list" where
  "chat_messages data = [(s2p ''system'', sys_prompt), (s2p ''user'', message data)]"

text \<open>\<open>completion.choices[0].message.content or "[]"\<close>, given the content.\<close>

definition raw_content :: "pystr option \<Rightarrow> pystr" where
  "raw_content content =
     (case content of
        None \<Rightarrow> s2p ''[]''
      | Some c \<Rightarrow> if c = [] then s2p ''[]'' else c)"

text \<open>What is written to \<open>/tmp/ingredients.txt\<close>: \<open>ing + "\n"\<close> for each ingredient.\<close>

definition file_content :: "pystr list \<Rightarrow> pystr" where
  "file_content normalized = concat (map (\<lambda>ing. ing @ [10]) normalized)"

text \<open>
  \<^verbatim>\<open>
  lexia.stream_chunk(data, "... Ingredientes detectados:\n")
  for ing in normalized:
      lexia.stream_chunk(data, f"- {ing}\n")
  lexia.stream_chunk(data, f"\n... Guardados {len(normalized)} ingredientes en ingredients.txt\n\n")
  \<close>
\<close>

definition stream_items :: "pystr list \<Rightarrow> event list" where
  "stream_items normalized =
     [StreamChunk (detected_header @ [10])]
     @ map (\<lambda>ing. StreamChunk (s2p ''- '' @ ing @ [10])) normalized
     @ [StreamChunk (saved_msg (length normalized))]"

text \<open>
  The body of the \<open>try\<close> of \<open>process_message\<close>: the trace of its calls, and the
  exception that left it, if one did. Logging has no effect here. The places that can
  raise are the call of the model, \<open>completion.choices[0]\<close> on an empty list, and the
  writing of the file; \<open>_extract_json_array\<close> is called as the model of it says.
\<close>

definition process_message_try :: "world \<Rightarrow> chat_message \<Rightarrow> event list \<times> exn option" where
  "process_message_try w data =
     (case variables_get w (variables data) OPENAI_API_KEY of
        None \<Rightarrow> missing_key_reply
      | Some openai_api_key \<Rightarrow>
          if openai_api_key = [] then missing_key_reply
          else
            (let tr0 = [AddMessage (thread_id data) (s2p ''user'') (message data),
                        StreamChunk analysing_msg];
                 msg_lower = str_lower w (strip (message data))
             in if msg_lower \<in> set greetings
                then (tr0 @ [StreamChunk greet_reply, CompleteResponse greet_reply], None)
                else
                  (let messages = chat_messages data;
                       tr1 = tr0 @ [ModelRequest (model data) messages]
                   in case chat_create w openai_api_key (model data) messages of
                        Inl e \<Rightarrow> (tr1, Some e)
                      | Inr choices \<Rightarrow>
                          (case choices of
                             [] \<Rightarrow> (tr1, Some IndexError)
                           | content # _ \<Rightarrow>
                               (case extract_json_array w (raw_content content) of
                                  Inl e \<Rightarrow> (tr1, Some e)
                                | Inr ingredients \<Rightarrow>
                                    (let normalized = normalize_items w ingredients
                                     in if normalized = []
                                        then (tr1 @ [StreamChunk no_ingredients_msg,
                                                     CompleteResponse no_ingredients_msg], None)
                                        else
                                          (let tr2 = tr1 @ [FileWrite target_path (file_content normalized)]
                                           in case open_write w target_path (file_content normalized) of
                                                Some e \<Rightarrow> (tr2, Some e)
                                              | None \<Rightarrow>
                                                  (let tr3 = tr2 @ stream_items normalized;
                                                       (tr4, results_lines) =
                                                          search_loop w (variables data) normalized
                                                            (tr3, [results_header]);
                                                       final = final_response normalized results_lines
                                                   in (tr4 @ [AddMessage (thread_id data) (s2p ''assistant'') final,
                                                              CompleteResponse final], None)))))))))"

text \<open>
  \<^verbatim>\<open>
  except Exception as e:
      error_msg = f"Error processing message: {str(e)}"
      lexia.send_error(data, error_msg)
  \<close>
\<close>

definition process_message :: "world \<Rightarrow> chat_message \<Rightarrow> event list" where
  "process_message w data =
     (case process_message_try w data of
        (tr, None) \<Rightarrow> tr
      | (tr, Some e) \<Rightarrow> tr @ [SendError (s2p ''Error processing message: '' @ exn_str w e)])"


section \<open>search\_handler.py: \<open>google_search\<close>\<close>

text \<open>
  \<open>xs[:n]\<close>: the first \<open>n\<close> elements for \<open>n \<ge> 0\<close>, all but the last \<open>-n\<close> for
  \<open>n < 0\<close>.
\<close>

definition py_take :: "int \<Rightarrow> 'a list \<Rightarrow> 'a list" where
  "py_take n xs = (if 0 \<le> n then take (nat n) xs else take (length xs - nat (- n)) xs)"

text \<open>
  \<open>data["organic"][:num_results]\<close>, as the list the \<open>for\<close> loop runs over: a list is
  sliced, a string is sliced and read character by character, anything else raises (a
  \<open>dict\<close> has no slice among its keys, a number and \<open>None\<close> have no subscript).
\<close>

fun slice_items :: "json \<Rightarrow> int \<Rightarrow> exn + json list" where
  "slice_items (JArr xs) n = Inr (py_take n xs)"
| "slice_items (JStr s) n = Inr (map (\<lambda>c. JStr [c]) (py_take n s))"
| "slice_items v n = Inl TypeError"

text \<open>
  \<open>if "organic" in data: ... data["organic"][:num_results]\<close>. On a \<open>dict\<close> the test is
  on its keys. On a list it is on its elements, and \<open>data["organic"]\<close> then raises; on
  a string it is the substring test, and \<open>data["organic"]\<close> then raises; on anything
  else the test itself raises.
\<close>

fun organic_items :: "json \<Rightarrow> int \<Rightarrow> exn + json list" where
  "organic_items (JObj kvs) n =
     (case map_of kvs (s2p ''organic'') of
        None \<Rightarrow> Inr []
      | Some v \<Rightarrow> slice_items v n)"
| "organic_items (JArr xs) n =
     (if JStr (s2p ''organic'') \<in> set xs then Inl TypeError else Inr [])"
| "organic_items (JStr s) n =
     (if str_contains (s2p ''organic'') s then Inl TypeError else Inr [])"
| "organic_items v n = Inl TypeError"

text \<open>
  \<^verbatim>\<open>
  for i, result in enumerate(data["organic"][:num_results], 1):
      title = result.get("title", "No title")
      link = result.get("link", "")
      snippet = result.get("snippet", "No description available")
      results.append(f"{i}. **{title}**\n   {snippet}\n   [Link]({link})\n")
  \<close>
  \<open>result.get\<close> exists on a \<open>dict\<close> only.
\<close>

definition format_result :: "world \<Rightarrow> nat \<Rightarrow> (pystr \<times> json) list \<Rightarrow> pystr" where
  "format_result w i kvs =
     (let title = dict_get kvs (s2p ''title'') (JStr (s2p ''No title''));
          link = dict_get kvs (s2p ''link'') (JStr []);
          snippet = dict_get kvs (s2p ''snippet'') (JStr (s2p ''No description available''))
      in show_nat i @ s2p ''. **'' @ py_str w title @ s2p ''**'' @ [10]
         @ s2p ''   '' @ py_str w snippet @ [10]
         @ s2p ''   [Link]('' @ py_str w link @ s2p '')'' @ [10])"

fun format_results :: "world \<Rightarrow> nat \<Rightarrow> json list \<Rightarrow> pystr list \<Rightarrow> exn + pystr list" where
  "format_results w i [] results = Inr results"
| "format_results w i (JObj kvs # rest) results =
     format_results w (Suc i) rest (results @ [format_result w i kvs])"
| "format_results w i (v # rest) results = Inl AttributeError"

definition variables_not_provided :: pystr where
  "variables_not_provided = s2p ''Variables not provided to google_search''"

definition search_results_header :: "pystr \<Rightarrow> pystr" where
  "search_results_header query =
     [128269] @ s2p '' **Search Results for: '' @ query @ s2p ''**'' @ [10, 10]"

text \<open>
  The body of the \<open>try\<close> of \<open>google_search\<close>. Its argument \<open>variables\<close> (here
  \<open>vars\<close>, the name being a field of the message) is \<open>None\<close> by default; \<open>not variables\<close>
  holds for \<open>None\<close> and for the empty list.
\<close>

definition google_search_try ::
  "world \<Rightarrow> pystr \<Rightarrow> int \<Rightarrow> variable list option \<Rightarrow> exn + pystr" where
  "google_search_try w query num_results vars =
     (case vars of
        None \<Rightarrow> Inl (ValueError variables_not_provided)
      | Some vs \<Rightarrow>
          if vs = [] then Inl (ValueError variables_not_provided)
          else
            (case variables_get w vs SERPER_API_KEY of
               None \<Rightarrow> Inl (ValueError serper_key_missing)
             | Some serper_api_key \<Rightarrow>
                 if serper_api_key = [] then Inl (ValueError serper_key_missing)
                 else
                   (let payload = JObj [(s2p ''q'', JStr query),
                                        (s2p ''num'', JInt (min num_results 10))]
                    in case requests_post w search_url serper_api_key payload of
                         Inl e \<Rightarrow> Inl e
                       | Inr data \<Rightarrow>
                           (case organic_items data num_results of
                              Inl e \<Rightarrow> Inl e
                            | Inr items \<Rightarrow>
                                (case format_results w 1 items [] of
                                   Inl e \<Rightarrow> Inl e
                                 | Inr results \<Rightarrow>
                                     if results = []
                                     then Inr (search_results_header query
                                               @ s2p ''No results found for your search query.'')
                                     else Inr (search_results_header query
                                               @ join [10] results))))))"

text \<open>
  \<^verbatim>\<open>
  except Exception as e:
      error_msg = f"Error performing Google search: {str(e)}"
      return f"... **Search Error:** {error_msg}"
  \<close>
  The result is \<open>Inl\<close> where an exception would leave \<open>google_search\<close>.
\<close>

definition search_error :: "world \<Rightarrow> exn \<Rightarrow> pystr" where
  "search_error w e =
     [10060] @ s2p '' **Search Error:** Error performing Google search: '' @ exn_str w e"

definition google_search ::
  "world \<Rightarrow> pystr \<Rightarrow> int \<Rightarrow> variable list option \<Rightarrow> exn + pystr" where
  "google_search w query num_results vars =
     (case google_search_try w query num_results vars of
        Inr s \<Rightarrow> Inr s
      | Inl e \<Rightarrow>
          Inr (search_error w e))"

section \<open>search\_handler.py: \<open>_parse_menu_items\<close>\<close>























section \<open>search\_handler.py: \<open>_serper_image_search\<close>\<close>

definition images_url :: pystr where
  "images_url = s2p ''https://google.serper.dev/images''"

definition food_keywords :: "pystr list" where
  "food_keywords =
     [s2p ''food'', s2p ''dish'', s2p ''meal'', s2p ''recipe'', s2p ''cooking'',
      s2p ''restaurant'', s2p ''kitchen'', s2p ''chef'']"

text \<open>
  \<open>img.get(key, "").lower()\<close>: the value under the key, or the empty string without
  the key; \<open>lower\<close> exists on a string only.
\<close>

definition lowered_field :: "world \<Rightarrow> (pystr \<times> json) list \<Rightarrow> pystr \<Rightarrow> exn + pystr" where
  "lowered_field w kvs k =
     (case dict_get kvs k (JStr []) of
        JStr s \<Rightarrow> Inr (str_lower w s)
      | _ \<Rightarrow> Inl AttributeError)"

text \<open>\<open>img.get("imageUrl") or img.get("thumbnailUrl") or img.get("link")\<close>\<close>

definition image_url :: "(pystr \<times> json) list \<Rightarrow> json" where
  "image_url kvs =
     py_or (dict_get kvs (s2p ''imageUrl'') JNull)
       (py_or (dict_get kvs (s2p ''thumbnailUrl'') JNull) (dict_get kvs (s2p ''link'') JNull))"

text \<open>
  \<open>any(keyword in title or keyword in source for keyword in food_keywords)\<close>
\<close>

definition is_food :: "pystr \<Rightarrow> pystr \<Rightarrow> bool" where
  "is_food title source =
     list_ex (\<lambda>keyword. str_contains keyword title \<or> str_contains keyword source) food_keywords"

text \<open>
  The \<open>for img in images\<close> loop: \<open>Inr (Some v)\<close> is its \<open>return v\<close>, \<open>Inr None\<close> its
  end without a \<open>return\<close>. \<open>img.get\<close> exists on a \<open>dict\<close> only.
\<close>

fun pick_food_image :: "world \<Rightarrow> json list \<Rightarrow> exn + json option" where
  "pick_food_image w [] = Inr None"
| "pick_food_image w (JObj kvs # imgs) =
     (case lowered_field w kvs (s2p ''title'') of
        Inl e \<Rightarrow> Inl e
      | Inr title \<Rightarrow>
          (case lowered_field w kvs (s2p ''source'') of
             Inl e \<Rightarrow> Inl e
           | Inr source \<Rightarrow>
               if is_food title source then Inr (Some (image_url kvs))
               else pick_food_image w imgs))"
| "pick_food_image w (v # imgs) = Inl AttributeError"

text \<open>
  What follows \<open>data = resp.json()\<close>. \<open>data.get\<close> exists on a \<open>dict\<close> only. A true
  \<open>images\<close> that is no list makes the loop raise: the elements of a string and of a
  \<open>dict\<close> are strings, which have no \<open>get\<close>, and a number is not iterable.
\<close>

fun select_image :: "world \<Rightarrow> json \<Rightarrow> exn + json" where
  "select_image w (JObj kvs) =
     (let images = py_or (dict_get kvs (s2p ''images'') JNull) (JArr [])
      in if \<not> truthy images then Inr JNull
         else
           (case images of
              JArr imgs \<Rightarrow>
                (case pick_food_image w imgs of
                   Inl e \<Rightarrow> Inl e
                 | Inr (Some url) \<Rightarrow> Inr url
                 | Inr None \<Rightarrow>
                     (case imgs of
                        [] \<Rightarrow> Inl IndexError
                      | JObj first # _ \<Rightarrow> Inr (image_url first)
                      | _ # _ \<Rightarrow> Inl AttributeError))
            | JStr s \<Rightarrow> Inl AttributeError
            | JObj d \<Rightarrow> Inl AttributeError
            | _ \<Rightarrow> Inl TypeError))"
| "select_image w v = Inl AttributeError"

text \<open>The result is \<open>Inl\<close> where the function raises, \<open>Inr JNull\<close> where it returns \<open>None\<close>.\<close>

definition serper_image_search :: "world \<Rightarrow> pystr \<Rightarrow> variable list \<Rightarrow> exn + json" where
  "serper_image_search w query vs =
     (case variables_get w vs SERPER_API_KEY of
        None \<Rightarrow> Inl (ValueError serper_key_missing)
      | Some api_key \<Rightarrow>
          if api_key = [] then Inl (ValueError serper_key_missing)
          else
            (let food_query = query @ s2p '' food dish meal recipe'';
                 payload = JObj [(s2p ''q'', JStr food_query), (s2p ''num'', JInt 5),
                                 (s2p ''safe'', JStr (s2p ''active''))]
             in case requests_post w images_url api_key payload of
                  Inl e \<Rightarrow> Inl e
                | Inr data \<Rightarrow> select_image w data))"


section \<open>Notions the properties are stated with\<close>

text \<open>The texts a trace streams, in order.\<close>

fun chunks :: "event list \<Rightarrow> pystr list" where
  "chunks [] = []"
| "chunks (StreamChunk c # es) = c # chunks es"
| "chunks (e # es) = chunks es"

text \<open>The two terminal calls of the handler.\<close>

fun is_terminal :: "event \<Rightarrow> bool" where
  "is_terminal (CompleteResponse t) = True"
| "is_terminal (SendError t) = True"
| "is_terminal e = False"

fun is_complete :: "event \<Rightarrow> bool" where
  "is_complete (CompleteResponse t) = True"
| "is_complete e = False"

fun is_error :: "event \<Rightarrow> bool" where
  "is_error (SendError t) = True"
| "is_error e = False"

text \<open>The calls of the language model and of the search provider.\<close>

fun is_request :: "event \<Rightarrow> bool" where
  "is_request (ModelRequest m ms) = True"
| "is_request (SearchRequest u p) = True"
| "is_request e = False"

text \<open>
  Keeping, of a list, each element whose key has not been seen before: the first of
  each key stays, in the order of the list.
\<close>

fun keep_first :: "('a \<Rightarrow> 'k) \<Rightarrow> 'k set \<Rightarrow> 'a list \<Rightarrow> 'a list" where
  "keep_first key seen [] = []"
| "keep_first key seen (x # xs) =
     (if key x \<in> seen then keep_first key seen xs
      else x # keep_first key (insert (key x) seen) xs)"

text \<open>The names the normalisation loop gets from the elements and finds not empty.\<close>

definition candidates :: "world \<Rightarrow> json list \<Rightarrow> pystr list" where
  "candidates w items = filter (\<lambda>name. name \<noteq> []) (List.map_filter (item_name w) items)"

text \<open>A blank string: empty, or white space only.\<close>

definition blank :: "pystr \<Rightarrow> bool" where
  "blank s = list_all is_space s"

text \<open>What the search loop streams and records for one ingredient.\<close>

definition item_chunk :: "world \<Rightarrow> variable list \<Rightarrow> pystr \<Rightarrow> pystr" where
  "item_chunk w vs ing =
     (let link = item_link w vs ing
      in if truthy link then found_chunk w ing link else not_found_chunk ing)"

definition item_line :: "world \<Rightarrow> variable list \<Rightarrow> pystr \<Rightarrow> pystr" where
  "item_line w vs ing =
     (let link = item_link w vs ing
      in if truthy link then found_line w ing link else not_found_line ing)"

definition item_events :: "world \<Rightarrow> variable list \<Rightarrow> pystr \<Rightarrow> event list" where
  "item_events w vs ing =
     [StreamChunk (progress_chunk ing)]
     @ fst (serper_first_link w (ing @ s2p '' site:carrefour.es'') vs)
     @ [StreamChunk (item_chunk w vs ing)]"

text \<open>
  Whether an image record counts as a food image, and the URL taken from it, for a
  record that is an object whose title and source are strings where present.
\<close>

fun food_image :: "world \<Rightarrow> json \<Rightarrow> bool" where
  "food_image w (JObj kvs) =
     (case (lowered_field w kvs (s2p ''title''), lowered_field w kvs (s2p ''source'')) of
        (Inr title, Inr source) \<Rightarrow> is_food title source
      | _ \<Rightarrow> False)"
| "food_image w v = False"

fun url_of :: "json \<Rightarrow> json" where
  "url_of (JObj kvs) = image_url kvs"
| "url_of v = JNull"

fun well_formed_image :: "json \<Rightarrow> bool" where
  "well_formed_image (JObj kvs) =
     ((case map_of kvs (s2p ''title'') of None \<Rightarrow> True | Some (JStr s) \<Rightarrow> True | Some v \<Rightarrow> False) \<and>
      (case map_of kvs (s2p ''source'') of None \<Rightarrow> True | Some (JStr s) \<Rightarrow> True | Some v \<Rightarrow> False))"
| "well_formed_image v = False"

text \<open>
  The turn gets as far as the search loop, with \<open>normalized\<close> as its list of items: the
  key is there, the message is no greeting, the model answered, the answer gave the
  non-empty list \<open>normalized\<close>, and the file was written.
\<close>

definition lookup_reached :: "world \<Rightarrow> chat_message \<Rightarrow> pystr list \<Rightarrow> bool" where
  "lookup_reached w data normalized =
     (case variables_get w (variables data) OPENAI_API_KEY of
        None \<Rightarrow> False
      | Some openai_api_key \<Rightarrow>
          openai_api_key \<noteq> [] \<and> str_lower w (strip (message data)) \<notin> set greetings \<and>
          (case chat_create w openai_api_key (model data) (chat_messages data) of
             Inl e \<Rightarrow> False
           | Inr choices \<Rightarrow>
               (case choices of
                  [] \<Rightarrow> False
                | content # _ \<Rightarrow>
                    (case extract_json_array w (raw_content content) of
                       Inl e \<Rightarrow> False
                     | Inr ingredients \<Rightarrow>
                         normalize_items w ingredients = normalized \<and> normalized \<noteq> [] \<and>
                         open_write w target_path (file_content normalized) = None))))"

text \<open>
  The final response written section by section: the header and one line for each item,
  an empty line, the header of the results and one line for each item.
\<close>

definition composed_response :: "world \<Rightarrow> variable list \<Rightarrow> pystr list \<Rightarrow> pystr" where
  "composed_response w vs items =
     detected_header @ concat (map (\<lambda>ing. [10] @ s2p ''- '' @ ing) items)
     @ [10, 10]
     @ results_header @ concat (map (\<lambda>ing. [10] @ item_line w vs ing) items)"

text \<open>Whether a value is a list.\<close>

fun is_array :: "json \<Rightarrow> bool" where
  "is_array (JArr xs) = True"
| "is_array v = False"





section \<open>A concrete world\<close>

text \<open>
  A world to run the functions in: ASCII lower-casing and digits, a \<open>json.loads\<close> that
  reads two texts, a model that answers with the five ingredients of a tortilla, a file
  system that accepts the write, and a search provider that has a link for eggs, fails
  for potatoes, and has no result for anything else.
\<close>

definition ascii_lower :: "pystr \<Rightarrow> pystr" where
  "ascii_lower s = map (\<lambda>c. if 65 \<le> c \<and> c \<le> 90 then c + 32 else c) s"

definition ascii_digit :: "pychar \<Rightarrow> bool" where
  "ascii_digit c \<longleftrightarrow> 48 \<le> c \<and> c \<le> 57"

definition tortilla_items :: "pystr list" where
  "tortilla_items =
     [s2p ''huevos'', s2p ''patatas'', s2p ''cebolla'', s2p ''aceite de oliva'', s2p ''sal'']"

definition tortilla_answer :: pystr where
  "tortilla_answer =
     [91] @ join [44] (map (\<lambda>x. [34] @ x @ [34]) tortilla_items) @ [93]"

definition demo_loads :: "pystr \<Rightarrow> exn + json" where
  "demo_loads text =
     (if text = tortilla_answer then Inr (JArr (map JStr tortilla_items))
      else if text = s2p ''[]'' then Inr (JArr [])
      else Inl (ExternalError (s2p ''Expecting value'')))"

definition demo_post :: "pystr \<Rightarrow> pystr \<Rightarrow> json \<Rightarrow> exn + json" where
  "demo_post url api_key payload =
     (if url = images_url
      then Inr (JObj [(s2p ''images'', JArr [JObj [(s2p ''title'', JStr (s2p ''Food''))]])])
      else if payload = JObj [(s2p ''q'', JStr (s2p ''huevos site:carrefour.es'')), (s2p ''num'', JInt 5)]
      then Inr (JObj [(s2p ''organic'',
                       JArr [JObj [(s2p ''title'', JStr (s2p ''Huevos'')),
                                   (s2p ''link'', JStr (s2p ''https://www.carrefour.es/huevos''))]])])
      else if payload = JObj [(s2p ''q'', JStr (s2p ''patatas site:carrefour.es'')), (s2p ''num'', JInt 5)]
      then Inl (ExternalError (s2p ''503 Server Error''))
      else Inr (JObj [(s2p ''organic'', JArr [])]))"

definition demo_world :: world where
  "demo_world =
     \<lparr> str_lower = ascii_lower,
       isdecimal = ascii_digit,
       py_repr = (\<lambda>v. s2p ''<value>''),
       exc_text = (\<lambda>e. s2p ''<error>''),
       json_loads = demo_loads,
       variables_get = map_of,
       chat_create = (\<lambda>api_key model messages. Inr [Some tortilla_answer]),
       open_write = (\<lambda>path content. None),
       requests_post = demo_post \<rparr>"

definition demo_variables :: "variable list" where
  "demo_variables = [(OPENAI_API_KEY, s2p ''sk-1''), (SERPER_API_KEY, s2p ''key-2'')]"

definition demo_turn :: "pystr \<Rightarrow> chat_message" where
  "demo_turn text =
     \<lparr> thread_id = s2p ''t1'', message = text, response_uuid = s2p ''r1'',
       model = s2p ''gpt-4o'', variables = demo_variables \<rparr>"

definition prose_answer :: pystr where
  "prose_answer = s2p ''Claro: '' @ tortilla_answer @ s2p '' Buen provecho''"

text \<open>The turn of the tortilla scenario.\<close>

definition tortilla_turn :: chat_message where
  "tortilla_turn = demo_turn (s2p ''quiero hacer tortilla de patata'')"

text \<open>The same world with a language model that times out.\<close>

definition failing_world :: world where
  "failing_world =
     demo_world \<lparr> chat_create := (\<lambda>api_key model messages. Inl (ExternalError (s2p ''timed out''))) \<rparr>"

text \<open>The final response of the tortilla scenario in the concrete world.\<close>

definition tortilla_response :: pystr where
  "tortilla_response =
     detected_header @ [10]
     @ s2p ''- huevos'' @ [10] @ s2p ''- patatas'' @ [10] @ s2p ''- cebolla'' @ [10]
     @ s2p ''- aceite de oliva'' @ [10] @ s2p ''- sal'' @ [10] @ [10]
     @ results_header @ [10]
     @ s2p ''- huevos: https://www.carrefour.es/huevos'' @ [10]
     @ s2p ''- patatas: No encontrado'' @ [10]
     @ s2p ''- cebolla: No encontrado'' @ [10]
     @ s2p ''- aceite de oliva: No encontrado'' @ [10]
     @ s2p ''- sal: No encontrado''"

text \<open>
  An answer of the model with a padded name, a repetition in another case, objects with
  and without a name, a number and a blank string.
\<close>

definition mixed_answer :: json where
  "mixed_answer =
     JArr [JStr (s2p '' Huevos ''), JStr (s2p ''huevos''), JObj [(s2p ''name'', JStr (s2p ''Sal''))],
           JInt 5, JStr (s2p ''  ''), JObj [(s2p ''x'', JInt 1)], JStr (s2p ''SAL''),
           JStr (s2p ''patatas'')]"


text \<open>The payload of the image request for a query.\<close>

definition image_payload :: "pystr \<Rightarrow> json" where
  "image_payload query =
     JObj [(s2p ''q'', JStr (query @ s2p '' food dish meal recipe'')), (s2p ''num'', JInt 5),
           (s2p ''safe'', JStr (s2p ''active''))]"

text \<open>
  A provider with two images: the first has a URL and no food word, the second has a
  food word in its title and a thumbnail only.
\<close>

definition gallery_images :: "json list" where
  "gallery_images =
     [JObj [(s2p ''title'', JStr (s2p ''City skyline'')), (s2p ''imageUrl'', JStr (s2p ''https://img/1.jpg''))],
      JObj [(s2p ''title'', JStr (s2p ''Best Paella RECIPE'')), (s2p ''source'', JStr (s2p ''blog'')),
            (s2p ''thumbnailUrl'', JStr (s2p ''https://img/2.jpg''))]]"

definition gallery_world :: world where
  "gallery_world =
     demo_world \<lparr> requests_post :=
       (\<lambda>url api_key payload. Inr (JObj [(s2p ''images'', JArr gallery_images)])) \<rparr>"

text \<open>
  An answer that is a JSON object holding the array, and a world whose \<open>json.loads\<close>
  reads it, and the array in it, as \<open>json.loads\<close> does.
\<close>

definition object_answer :: pystr where
  "object_answer = s2p ''{\"ingredients\": [\"huevos\"]}''"

definition object_world :: world where
  "object_world =
     demo_world \<lparr> json_loads :=
       (\<lambda>text.
          if text = object_answer
          then Inr (JObj [(s2p ''ingredients'', JArr [JStr (s2p ''huevos'')])])
          else if text = s2p ''[\"huevos\"]'' then Inr (JArr [JStr (s2p ''huevos'')])
          else Inl (ExternalError (s2p ''Expecting value''))) \<rparr>"

section \<open>Basic facts\<close>

lemma s2p_simps: "s2p [] = []" "s2p (c # cs) = of_char c # s2p cs"
  by (simp_all add: s2p_def)

lemma tortilla_answer_eq:
  "tortilla_answer = s2p ''[\"huevos\",\"patatas\",\"cebolla\",\"aceite de oliva\",\"sal\"]''"
  by (simp add: tortilla_answer_def tortilla_items_def s2p_simps)

section \<open>The missing credential\<close>

text \<open>
  C2. A turn whose variables hold no \<open>OPENAI_API_KEY\<close>, or an empty one, makes
  \<open>process_message\<close> stream the fixed message, complete the response with the same
  message, and stop: these two calls are the whole trace, so \<open>send_error\<close> is not
  called.
\<close>

theorem missing_key_terminates_gracefully:
  assumes "variables_get w (variables data) OPENAI_API_KEY = None
           \<or> variables_get w (variables data) OPENAI_API_KEY = Some []"
  shows "process_message w data = [StreamChunk missing_key_msg, CompleteResponse missing_key_msg]"
  using assms by (auto simp: process_message_def process_message_try_def missing_key_reply_def)

theorem missing_key_terminates_gracefully_witness:
  "variables_get demo_world (variables ((demo_turn (s2p ''hola'')) \<lparr> variables := [] \<rparr>)) OPENAI_API_KEY = None
   \<and> process_message demo_world ((demo_turn (s2p ''hola'')) \<lparr> variables := [] \<rparr>)
       = [StreamChunk missing_key_msg, CompleteResponse missing_key_msg]"
  using missing_key_terminates_gracefully [of demo_world "(demo_turn (s2p ''hola'')) \<lparr> variables := [] \<rparr>"]
  by (simp add: demo_world_def)

section \<open>\<open>_extract_json_array\<close>\<close>

lemma re_search_bracket_None:
  "91 \<notin> set text \<or> 93 \<notin> set text \<Longrightarrow> re_search_bracket text = None"
proof -
  assume a: "91 \<notin> set text \<or> 93 \<notin> set text"
  have sub: "set (dropWhile (\<lambda>c. c \<noteq> 91) text) \<subseteq> set text"
    by (rule set_dropWhileD [THEN subsetI])
  show ?thesis
  proof (cases "91 \<in> set text")
    case False
    then have "dropWhile (\<lambda>c. c \<noteq> 91) text = []" by auto
    then show ?thesis by (simp add: re_search_bracket_def)
  next
    case True
    with a have "93 \<notin> set text" by simp
    with sub have "93 \<notin> set (dropWhile (\<lambda>c. c \<noteq> 91) text)" by blast
    then show ?thesis by (simp add: re_search_bracket_def Let_def)
  qed
qed

text \<open>
  A match is a piece of the text that starts with the first \<open>[\<close> of the text and ends
  with its last \<open>]\<close>.
\<close>

lemma re_search_bracket_Some:
  assumes "re_search_bracket text = Some m"
  shows "\<exists>pre post. text = pre @ m @ post \<and> 91 \<notin> set pre \<and> 93 \<notin> set post
           \<and> hd m = 91 \<and> last m = 93 \<and> 2 \<le> length m"
proof -
  define pre where "pre = takeWhile (\<lambda>c. c \<noteq> 91) text"
  define rest where "rest = dropWhile (\<lambda>c. c \<noteq> (91::nat)) text"
  from assms have r: "rest \<noteq> []" "93 \<in> set rest"
    and m: "m = rev (dropWhile (\<lambda>c. c \<noteq> 93) (rev rest))"
    by (auto simp: re_search_bracket_def Let_def rest_def split: if_splits)
  define post where "post = rev (takeWhile (\<lambda>c. c \<noteq> (93::nat)) (rev rest))"
  have split: "rest = m @ post"
  proof -
    have "rev rest = takeWhile (\<lambda>c. c \<noteq> 93) (rev rest) @ dropWhile (\<lambda>c. c \<noteq> 93) (rev rest)"
      by simp
    then have "rev (rev rest) =
        rev (takeWhile (\<lambda>c. c \<noteq> 93) (rev rest) @ dropWhile (\<lambda>c. c \<noteq> 93) (rev rest))"
      by simp
    then show ?thesis unfolding m post_def by (simp only: rev_rev_ident rev_append)
  qed
  have whole: "text = pre @ m @ post"
  proof -
    have "text = pre @ rest" by (simp add: pre_def rest_def)
    with split show ?thesis by simp
  qed
  have p1: "91 \<notin> set pre" unfolding pre_def by (auto dest: set_takeWhileD)
  have p2: "93 \<notin> set post" unfolding post_def by (auto dest: set_takeWhileD)
  have hdrest: "hd rest = 91"
    using r(1) hd_dropWhile [of "\<lambda>c. c \<noteq> 91" "text"] by (simp add: rest_def)
  have dne: "dropWhile (\<lambda>c. c \<noteq> 93) (rev rest) \<noteq> []"
    using r(2) by (simp add: dropWhile_eq_Nil_conv)
  then have mne: "m \<noteq> []" by (simp add: m)
  have lastm: "last m = 93"
    using dne hd_dropWhile [of "\<lambda>c. c \<noteq> 93" "rev rest"] by (simp add: m last_rev)
  have hdm: "hd m = 91" using split mne hdrest by (cases m) auto
  have "length m \<noteq> 1"
  proof
    assume "length m = 1"
    then obtain c where "m = [c]" by (cases m) auto
    with hdm lastm show False by simp
  qed
  with mne have "2 \<le> length m" by (cases m) (auto simp: Suc_le_eq)
  with whole p1 p2 hdm lastm show ?thesis by blast
qed

lemma demo_prose:
  "json_loads demo_world prose_answer = Inl (ExternalError (s2p ''Expecting value''))"
  "re_search_bracket prose_answer = Some tortilla_answer"
  "json_loads demo_world (s2p ''no json here'') = Inl (ExternalError (s2p ''Expecting value''))"
  "re_search_bracket (s2p ''no json here'') = None"
  by (simp_all add: demo_world_def demo_loads_def prose_answer_def tortilla_answer_eq
        s2p_simps re_search_bracket_def)

lemma dropWhile_keeps_tail:
  "\<not> P y \<Longrightarrow> set (y # ys) \<subseteq> set (dropWhile P (xs @ y # ys))"
  by (induction xs) auto

lemma re_search_bracket_finds:
  assumes "text = pre @ 91 # mid @ 93 # post"
  shows "\<exists>m. re_search_bracket text = Some m"
proof -
  have "set (91 # mid @ 93 # post) \<subseteq> set (dropWhile (\<lambda>c. c \<noteq> 91) (pre @ 91 # mid @ 93 # post))"
    by (rule dropWhile_keeps_tail) simp
  then have "93 \<in> set (dropWhile (\<lambda>c. c \<noteq> 91) text)" and "dropWhile (\<lambda>c. c \<noteq> 91) text \<noteq> []"
    using assms by auto
  then show ?thesis by (simp add: re_search_bracket_def Let_def)
qed

lemma re_search_bracket_pair:
  assumes "re_search_bracket text = Some m"
  shows "\<exists>pre mid post. text = pre @ 91 # mid @ 93 # post"
proof -
  from re_search_bracket_Some [OF assms] obtain pre post
    where t: "text = pre @ m @ post" and h: "hd m = 91" and l: "last m = 93" and n: "2 \<le> length m"
    by blast
  from n obtain x m' where m: "m = x # m'" by (cases m) auto
  with n have ne: "m' \<noteq> []" by auto
  then obtain mid y where m': "m' = mid @ [y]" by (metis rev_exhaust)
  from h m have "x = 91" by simp
  moreover from l m m' have "y = 93" by simp
  ultimately have "text = pre @ 91 # mid @ 93 # post" using t m m' by simp
  then show ?thesis by blast
qed

text \<open>
  C4, as the code has it. \<open>_extract_json_array\<close> never raises, whatever the text and
  whatever \<open>json.loads\<close> does with it. When \<open>json.loads\<close> reads the whole text, the
  function returns the value read, an array or not; the caller takes a value that is
  no list as the empty list. Otherwise it returns what \<open>json.loads\<close> makes of the
  match of \<open>\[.*\]\<close>, and the empty list when that fails too. The match runs from
  the first \<open>[\<close> of the text to its last \<open>]\<close>, and there is one exactly when a
  \<open>[\<close> of the text has a \<open>]\<close> after it. Without a match, as for a text without
  \<open>[\<close> or without \<open>]\<close>, the function returns the empty list.
\<close>

theorem extract_json_array_never_raises:
  "(\<exists>v. extract_json_array w text = Inr v)
   \<and> (\<forall>v. json_loads w text = Inr v \<longrightarrow>
         extract_json_array w text = Inr v
         \<and> (\<not> is_array v \<longrightarrow> normalize_items w v = []))
   \<and> (\<forall>e m. json_loads w text = Inl e \<and> re_search_bracket text = Some m \<longrightarrow>
         extract_json_array w text
           = (case json_loads w m of Inr v \<Rightarrow> Inr v | Inl e' \<Rightarrow> Inr (JArr []))
         \<and> (\<exists>pre post. text = pre @ m @ post \<and> 91 \<notin> set pre \<and> 93 \<notin> set post
               \<and> hd m = 91 \<and> last m = 93 \<and> 2 \<le> length m))
   \<and> (\<forall>e. json_loads w text = Inl e \<and> re_search_bracket text = None \<longrightarrow>
         extract_json_array w text = Inr (JArr []))
   \<and> ((\<exists>m. re_search_bracket text = Some m)
        \<longleftrightarrow> (\<exists>pre mid post. text = pre @ 91 # mid @ 93 # post))
   \<and> (91 \<notin> set text \<or> 93 \<notin> set text \<longrightarrow> re_search_bracket text = None)"
proof -
  have 1: "\<exists>v. extract_json_array w text = Inr v"
    by (simp add: extract_json_array_def split: sum.splits option.splits)
  have 2: "\<forall>v. json_loads w text = Inr v \<longrightarrow>
         extract_json_array w text = Inr v
         \<and> (\<not> is_array v \<longrightarrow> normalize_items w v = [])"
  proof (intro allI impI conjI)
    fix v assume "json_loads w text = Inr v"
    then show "extract_json_array w text = Inr v" by (simp add: extract_json_array_def)
  next
    fix v assume "\<not> is_array v"
    then show "normalize_items w v = []" by (cases v) (simp_all add: normalize_items_def)
  qed
  have 3: "\<forall>e m. json_loads w text = Inl e \<and> re_search_bracket text = Some m \<longrightarrow>
         extract_json_array w text
           = (case json_loads w m of Inr v \<Rightarrow> Inr v | Inl e' \<Rightarrow> Inr (JArr []))
         \<and> (\<exists>pre post. text = pre @ m @ post \<and> 91 \<notin> set pre \<and> 93 \<notin> set post
               \<and> hd m = 91 \<and> last m = 93 \<and> 2 \<le> length m)"
  proof (intro allI impI)
    fix e m assume a: "json_loads w text = Inl e \<and> re_search_bracket text = Some m"
    then have "extract_json_array w text
      = (case json_loads w m of Inr v \<Rightarrow> Inr v | Inl e' \<Rightarrow> Inr (JArr []))"
      by (simp add: extract_json_array_def split: sum.splits)
    moreover from a have "\<exists>pre post. text = pre @ m @ post \<and> 91 \<notin> set pre \<and> 93 \<notin> set post
               \<and> hd m = 91 \<and> last m = 93 \<and> 2 \<le> length m"
      using re_search_bracket_Some by blast
    ultimately show "extract_json_array w text
           = (case json_loads w m of Inr v \<Rightarrow> Inr v | Inl e' \<Rightarrow> Inr (JArr []))
         \<and> (\<exists>pre post. text = pre @ m @ post \<and> 91 \<notin> set pre \<and> 93 \<notin> set post
               \<and> hd m = 91 \<and> last m = 93 \<and> 2 \<le> length m)"
      by blast
  qed
  have 4: "\<forall>e. json_loads w text = Inl e \<and> re_search_bracket text = None \<longrightarrow>
         extract_json_array w text = Inr (JArr [])"
    by (simp add: extract_json_array_def)
  have 5: "(\<exists>m. re_search_bracket text = Some m)
        \<longleftrightarrow> (\<exists>pre mid post. text = pre @ 91 # mid @ 93 # post)"
    using re_search_bracket_finds re_search_bracket_pair by blast
  have 6: "91 \<notin> set text \<or> 93 \<notin> set text \<longrightarrow> re_search_bracket text = None"
    using re_search_bracket_None by blast
  from 1 2 3 4 5 6 show ?thesis by blast
qed

theorem extract_json_array_never_raises_witness:
  "extract_json_array demo_world prose_answer = Inr (JArr (map JStr tortilla_items))
   \<and> extract_json_array demo_world (s2p ''no json here'') = Inr (JArr [])"
proof -
  have a: "json_loads demo_world tortilla_answer = Inr (JArr (map JStr tortilla_items))"
    by (simp add: demo_world_def demo_loads_def)
  from extract_json_array_never_raises [of demo_world prose_answer] demo_prose(1,2) a
  have 1: "extract_json_array demo_world prose_answer = Inr (JArr (map JStr tortilla_items))"
    by simp
  from extract_json_array_never_raises [of demo_world "s2p ''no json here''"] demo_prose(3,4)
  have 2: "extract_json_array demo_world (s2p ''no json here'') = Inr (JArr [])"
    by simp
  from 1 2 show ?thesis by simp
qed

text \<open>
  C4 as stated has a JSON-array parse and a sequence as the result. The text
  \<open>{"ingredients": ["huevos"]}\<close> is read as a whole: the result is the object, not
  a list, although the pattern matches \<open>["huevos"]\<close> in it and that is an array.
\<close>

theorem object_answer_counterexample:
  "json_loads object_world object_answer
     = Inr (JObj [(s2p ''ingredients'', JArr [JStr (s2p ''huevos'')])])
   \<and> re_search_bracket object_answer = Some (s2p ''[\"huevos\"]'')
   \<and> json_loads object_world (s2p ''[\"huevos\"]'') = Inr (JArr [JStr (s2p ''huevos'')])
   \<and> extract_json_array object_world object_answer
       = Inr (JObj [(s2p ''ingredients'', JArr [JStr (s2p ''huevos'')])])
   \<and> \<not> is_array (JObj [(s2p ''ingredients'', JArr [JStr (s2p ''huevos'')])])"
proof -
  have 1: "json_loads object_world object_answer
     = Inr (JObj [(s2p ''ingredients'', JArr [JStr (s2p ''huevos'')])])"
    by (simp add: object_world_def)
  have 2: "re_search_bracket object_answer = Some (s2p ''[\"huevos\"]'')"
    by (simp add: object_answer_def re_search_bracket_def s2p_def)
  have ne: "s2p ''[\"huevos\"]'' \<noteq> object_answer"
    by (simp add: object_answer_def s2p_def)
  have 3: "json_loads object_world (s2p ''[\"huevos\"]'') = Inr (JArr [JStr (s2p ''huevos'')])"
    using ne by (simp add: object_world_def)
  have 4: "extract_json_array object_world object_answer
       = Inr (JObj [(s2p ''ingredients'', JArr [JStr (s2p ''huevos'')])])"
    by (simp add: extract_json_array_def 1)
  from 1 2 3 4 show ?thesis by simp
qed

section \<open>\<open>google_search\<close>\<close>

text \<open>
  C10. \<open>google_search\<close> never raises: whatever the query, the number of results, the
  variables and the provider's behaviour, it returns a string. With \<open>variables\<close>
  missing (\<open>None\<close>) or empty, and with \<open>SERPER_API_KEY\<close> absent or empty, the
  \<open>ValueError\<close> raised inside is caught and the string returned is the search error
  with its message; so is every other exception of the body.
\<close>

theorem google_search_never_raises:
  "(\<exists>s. google_search w query num_results vars = Inr s)
   \<and> (vars = None \<or> vars = Some [] \<longrightarrow>
        google_search w query num_results vars
          = Inr (search_error w (ValueError variables_not_provided)))
   \<and> (\<forall>vs. vars = Some vs \<and> vs \<noteq> [] \<and>
          (variables_get w vs SERPER_API_KEY = None \<or> variables_get w vs SERPER_API_KEY = Some []) \<longrightarrow>
        google_search w query num_results vars
          = Inr (search_error w (ValueError serper_key_missing)))
   \<and> (\<forall>e. google_search_try w query num_results vars = Inl e \<longrightarrow>
        google_search w query num_results vars = Inr (search_error w e))
   \<and> (\<forall>s. google_search_try w query num_results vars = Inr s \<longrightarrow>
        google_search w query num_results vars = Inr s)"
proof (intro conjI allI impI)
  show "\<exists>s. google_search w query num_results vars = Inr s"
    by (cases "google_search_try w query num_results vars") (simp_all add: google_search_def)
next
  assume "vars = None \<or> vars = Some []"
  then have "google_search_try w query num_results vars = Inl (ValueError variables_not_provided)"
    by (auto simp: google_search_try_def)
  then show "google_search w query num_results vars
          = Inr (search_error w (ValueError variables_not_provided))"
    by (simp add: google_search_def)
next
  fix vs
  assume "vars = Some vs \<and> vs \<noteq> [] \<and>
          (variables_get w vs SERPER_API_KEY = None \<or> variables_get w vs SERPER_API_KEY = Some [])"
  then have "google_search_try w query num_results vars = Inl (ValueError serper_key_missing)"
    by (auto simp: google_search_try_def)
  then show "google_search w query num_results vars
          = Inr (search_error w (ValueError serper_key_missing))"
    by (simp add: google_search_def)
next
  fix e assume "google_search_try w query num_results vars = Inl e"
  then show "google_search w query num_results vars = Inr (search_error w e)"
    by (simp add: google_search_def)
next
  fix s assume "google_search_try w query num_results vars = Inr s"
  then show "google_search w query num_results vars = Inr s"
    by (simp add: google_search_def)
qed

theorem google_search_never_raises_witness:
  "google_search demo_world (s2p ''tortilla'') 5 None
     = Inr (search_error demo_world (ValueError variables_not_provided))
   \<and> google_search demo_world (s2p ''tortilla'') 5 (Some [(OPENAI_API_KEY, s2p ''sk-1'')])
     = Inr (search_error demo_world (ValueError serper_key_missing))"
proof -
  have k: "variables_get demo_world [(OPENAI_API_KEY, s2p ''sk-1'')] SERPER_API_KEY = None"
    by (simp add: demo_world_def OPENAI_API_KEY_def SERPER_API_KEY_def s2p_def)
  from google_search_never_raises [of demo_world "s2p ''tortilla''" 5 None]
  have 1: "google_search demo_world (s2p ''tortilla'') 5 None
     = Inr (search_error demo_world (ValueError variables_not_provided))" by simp
  from google_search_never_raises [of demo_world "s2p ''tortilla''" 5 "Some [(OPENAI_API_KEY, s2p ''sk-1'')]"] k
  have 2: "google_search demo_world (s2p ''tortilla'') 5 (Some [(OPENAI_API_KEY, s2p ''sk-1'')])
     = Inr (search_error demo_world (ValueError serper_key_missing))" by simp
  from 1 2 show ?thesis by simp
qed

section \<open>Greetings\<close>

text \<open>
  C3, as the code has it. With the key present and a message that, stripped and
  lower-cased, is one of the greetings, \<open>process_message\<close> records the message,
  streams two chunks, the processing indicator and then the canned greeting, and
  completes the response with the greeting; it calls neither the language model nor
  the search provider, and not \<open>send_error\<close>.
\<close>

theorem greeting_short_circuit:
  assumes "variables_get w (variables data) OPENAI_API_KEY = Some openai_api_key"
    and "openai_api_key \<noteq> []"
    and "str_lower w (strip (message data)) \<in> set greetings"
  shows "process_message w data
           = [AddMessage (thread_id data) (s2p ''user'') (message data),
              StreamChunk analysing_msg, StreamChunk greet_reply, CompleteResponse greet_reply]
         \<and> chunks (process_message w data) = [analysing_msg, greet_reply]
         \<and> filter is_request (process_message w data) = []
         \<and> filter is_error (process_message w data) = []"
proof -
  from assms have "process_message w data
           = [AddMessage (thread_id data) (s2p ''user'') (message data),
              StreamChunk analysing_msg, StreamChunk greet_reply, CompleteResponse greet_reply]"
    by (simp add: process_message_def process_message_try_def Let_def)
  then show ?thesis by simp
qed

lemma demo_key:
  "variables_get demo_world (variables (demo_turn m)) OPENAI_API_KEY = Some (s2p ''sk-1'')"
  "s2p ''sk-1'' \<noteq> []"
  by (simp_all add: demo_world_def demo_turn_def demo_variables_def OPENAI_API_KEY_def s2p_def)

lemma demo_greeting:
  "str_lower demo_world (strip (message (demo_turn (s2p ''  Hola '')))) \<in> set greetings"
  "str_lower demo_world (strip (message (demo_turn (s2p ''hello'')))) \<in> set greetings"
  by (simp_all add: demo_world_def demo_turn_def strip_def is_space_def ascii_lower_def
        greetings_def s2p_def)

theorem greeting_short_circuit_witness:
  "str_lower demo_world (strip (message (demo_turn (s2p ''  Hola '')))) \<in> set greetings
   \<and> chunks (process_message demo_world (demo_turn (s2p ''  Hola ''))) = [analysing_msg, greet_reply]
   \<and> filter is_request (process_message demo_world (demo_turn (s2p ''  Hola ''))) = []"
  using greeting_short_circuit [OF demo_key(1) demo_key(2) demo_greeting(1)] demo_greeting(1)
  by simp

text \<open>
  C3 as stated asks for exactly one streamed chunk. For the message \<open>hello\<close> the
  processing indicator is streamed before the greeting: two chunks.
\<close>

theorem greeting_two_chunks_counterexample:
  "str_lower demo_world (strip (message (demo_turn (s2p ''hello'')))) \<in> set greetings
   \<and> chunks (process_message demo_world (demo_turn (s2p ''hello''))) = [analysing_msg, greet_reply]
   \<and> length (chunks (process_message demo_world (demo_turn (s2p ''hello'')))) \<noteq> 1"
proof -
  have "process_message demo_world (demo_turn (s2p ''hello''))
      = [AddMessage (thread_id (demo_turn (s2p ''hello''))) (s2p ''user'') (message (demo_turn (s2p ''hello''))),
              StreamChunk analysing_msg, StreamChunk greet_reply, CompleteResponse greet_reply]"
    using demo_key(1) [of "s2p ''hello''"] demo_key(2) demo_greeting(2)
    by (simp add: process_message_def process_message_try_def Let_def)
  with demo_greeting(2) show ?thesis by simp
qed



section \<open>The trace of a turn\<close>

lemma chunks_append: "chunks (xs @ ys) = chunks xs @ chunks ys"
  by (induction xs rule: chunks.induct) simp_all

lemma serper_first_link_events:
  "fst (serper_first_link w q vs) = [] \<or>
   (\<exists>u p. fst (serper_first_link w q vs) = [SearchRequest u p])"
  by (simp add: serper_first_link_def Let_def split: option.splits)

lemma serper_first_link_quiet:
  "filter is_terminal (fst (serper_first_link w q vs)) = []"
  "chunks (fst (serper_first_link w q vs)) = []"
  using serper_first_link_events [of w q vs] by auto

lemma item_events_quiet:
  "filter is_terminal (item_events w vs ing) = []"
  "chunks (item_events w vs ing) = [progress_chunk ing, item_chunk w vs ing]"
  by (simp_all add: item_events_def serper_first_link_quiet chunks_append)

lemma concat_item_events_quiet:
  "filter is_terminal (concat (map (item_events w vs) ings)) = []"
  "chunks (concat (map (item_events w vs) ings))
     = concat (map (\<lambda>ing. [progress_chunk ing, item_chunk w vs ing]) ings)"
  by (induction ings) (simp_all add: item_events_quiet chunks_append)

lemma stream_items_quiet:
  "filter is_terminal (stream_items normalized) = []"
  "chunks (stream_items normalized)
     = [detected_header @ [10]] @ map (\<lambda>ing. s2p ''- '' @ ing @ [10]) normalized
       @ [saved_msg (length normalized)]"
proof -
  have a: "filter is_terminal (map (\<lambda>ing. StreamChunk (s2p ''- '' @ ing @ [10])) xs) = []" for xs
    by (induction xs) simp_all
  have b: "chunks (map (\<lambda>ing. StreamChunk (s2p ''- '' @ ing @ [10])) xs)
      = map (\<lambda>ing. s2p ''- '' @ ing @ [10]) xs" for xs
    by (induction xs) simp_all
  show "filter is_terminal (stream_items normalized) = []"
    by (simp add: stream_items_def a)
  show "chunks (stream_items normalized)
     = [detected_header @ [10]] @ map (\<lambda>ing. s2p ''- '' @ ing @ [10]) normalized
       @ [saved_msg (length normalized)]"
    by (simp add: stream_items_def chunks_append b)
qed

lemma search_loop_eq:
  "search_loop w vs ings (tr, results_lines)
     = (tr @ concat (map (item_events w vs) ings), results_lines @ map (item_line w vs) ings)"
proof (induction ings arbitrary: tr results_lines)
  case Nil
  then show ?case by simp
next
  case (Cons ing ings)
  obtain calls r where c: "serper_first_link w (ing @ s2p '' site:carrefour.es'') vs = (calls, r)"
    by (cases "serper_first_link w (ing @ s2p '' site:carrefour.es'') vs")
  show ?case
    by (simp add: c Let_def Cons.IH item_events_def item_line_def item_chunk_def item_link_def)
qed

text \<open>The whole trace of a turn that reaches the search loop.\<close>

lemma process_message_try_lookup:
  assumes "lookup_reached w data normalized"
  shows "process_message_try w data
     = ([AddMessage (thread_id data) (s2p ''user'') (message data), StreamChunk analysing_msg,
         ModelRequest (model data) (chat_messages data),
         FileWrite target_path (file_content normalized)]
        @ stream_items normalized
        @ concat (map (item_events w (variables data)) normalized)
        @ [AddMessage (thread_id data) (s2p ''assistant'')
             (final_response normalized (results_header # map (item_line w (variables data)) normalized)),
           CompleteResponse
             (final_response normalized (results_header # map (item_line w (variables data)) normalized))],
        None)"
  using assms
  by (auto simp: lookup_reached_def process_message_try_def Let_def search_loop_eq
      split: option.splits sum.splits list.splits)

lemma process_message_lookup:
  assumes "lookup_reached w data normalized"
  shows "process_message w data
     = [AddMessage (thread_id data) (s2p ''user'') (message data), StreamChunk analysing_msg,
         ModelRequest (model data) (chat_messages data),
         FileWrite target_path (file_content normalized)]
        @ stream_items normalized
        @ concat (map (item_events w (variables data)) normalized)
        @ [AddMessage (thread_id data) (s2p ''assistant'')
             (final_response normalized (results_header # map (item_line w (variables data)) normalized)),
           CompleteResponse
             (final_response normalized (results_header # map (item_line w (variables data)) normalized))]"
  by (simp add: process_message_def process_message_try_lookup [OF assms])

text \<open>
  The body of the \<open>try\<close> either ends with the one \<open>complete_response\<close> of its trace,
  or raises before any terminal call.
\<close>

lemma process_message_try_shape:
  "(case process_message_try w data of
      (tr, None) \<Rightarrow> (\<exists>pre t. tr = pre @ [CompleteResponse t] \<and> filter is_terminal pre = [])
    | (tr, Some e) \<Rightarrow> filter is_terminal tr = [])"
proof -
  have comp: "\<exists>pre t'. xs @ [CompleteResponse t] = pre @ [CompleteResponse t'] \<and> filter is_terminal pre = []"
    if "filter is_terminal xs = []" for xs t
    using that by blast
  show ?thesis
    unfolding process_message_try_def missing_key_reply_def Let_def
    apply (simp split: option.split sum.split list.split prod.split add: search_loop_eq)
    apply (intro conjI impI allI)
    apply (auto simp: stream_items_quiet concat_item_events_quiet intro!: comp
           intro: exI [of _ "[StreamChunk missing_key_msg]"])
    done
qed


text \<open>
  C1. Every turn ends with exactly one terminal call, and it is the last call of the
  turn: the one \<open>complete_response\<close> when the body of the \<open>try\<close> returns, with no
  \<open>send_error\<close> in the trace; the one \<open>send_error\<close>, with the message of the
  exception, when the body raises at any of its steps, with no \<open>complete_response\<close>
  in the trace. The calls of the handler are taken to return, as their interface has
  no failure outcome.
\<close>

theorem exactly_one_terminal_call:
  "length (filter is_terminal (process_message w data)) = 1
   \<and> is_terminal (last (process_message w data))
   \<and> (case snd (process_message_try w data) of
         None \<Rightarrow>
           filter is_error (process_message w data) = []
           \<and> length (filter is_complete (process_message w data)) = 1
           \<and> (\<exists>t. last (process_message w data) = CompleteResponse t)
       | Some e \<Rightarrow>
           filter is_complete (process_message w data) = []
           \<and> length (filter is_error (process_message w data)) = 1
           \<and> last (process_message w data)
               = SendError (s2p ''Error processing message: '' @ exn_str w e))"
proof -
  have ce: "filter is_complete xs = [] \<and> filter is_error xs = []"
    if "filter is_terminal xs = []" for xs
    using that
  proof (induction xs)
    case Nil
    then show ?case by simp
  next
    case (Cons x xs)
    then show ?case by (cases x) (simp_all split: if_splits)
  qed
  obtain tr r where p: "process_message_try w data = (tr, r)"
    by (cases "process_message_try w data")
  show ?thesis
  proof (cases r)
    case None
    with p process_message_try_shape [of w data]
    obtain pre t where tr: "tr = pre @ [CompleteResponse t]" and q: "filter is_terminal pre = []"
      by auto
    from p None have pm: "process_message w data = pre @ [CompleteResponse t]"
      by (simp add: process_message_def tr)
    show ?thesis using ce [OF q] q by (simp add: pm p None)
  next
    case (Some e)
    with p process_message_try_shape [of w data]
    have q: "filter is_terminal tr = []" by auto
    from p Some have pm: "process_message w data
        = tr @ [SendError (s2p ''Error processing message: '' @ exn_str w e)]"
      by (simp add: process_message_def)
    show ?thesis using ce [OF q] q by (simp add: pm p Some)
  qed
qed

lemma demo_not_greeting:
  "str_lower demo_world (strip (s2p ''quiero hacer tortilla de patata'')) \<notin> set greetings"
  by (simp add: demo_world_def strip_def is_space_def ascii_lower_def greetings_def s2p_def)

lemma failing_world_try:
  "snd (process_message_try failing_world tortilla_turn)
     = Some (ExternalError (s2p ''timed out''))"
proof -
  have k: "variables_get failing_world (variables tortilla_turn) OPENAI_API_KEY = Some (s2p ''sk-1'')"
    using demo_key(1) [of "s2p ''quiero hacer tortilla de patata''"]
    by (simp add: failing_world_def demo_world_def tortilla_turn_def)
  have g: "str_lower failing_world (strip (message tortilla_turn))
      \<notin> set greetings"
    using demo_not_greeting by (simp add: failing_world_def demo_world_def demo_turn_def tortilla_turn_def)
  have c: "chat_create failing_world a b c = Inl (ExternalError (s2p ''timed out''))" for a b c
    by (simp add: failing_world_def)
  show ?thesis
    using demo_key(2) g by (simp add: process_message_try_def k c Let_def)
qed

theorem exactly_one_terminal_call_witness:
  "length (filter is_terminal
      (process_message failing_world tortilla_turn)) = 1
   \<and> filter is_complete
      (process_message failing_world tortilla_turn) = []
   \<and> last (process_message failing_world tortilla_turn)
       = SendError (s2p ''Error processing message: '' @ s2p ''timed out'')"
  using exactly_one_terminal_call [of failing_world tortilla_turn]
  by (simp add: failing_world_try)

lemma demo_lookup_reached:
  "lookup_reached demo_world tortilla_turn tortilla_items"
proof -
  have g: "str_lower demo_world (strip (message tortilla_turn))
      \<notin> set greetings"
    using demo_not_greeting by (simp add: demo_turn_def tortilla_turn_def)
  have k: "variables_get demo_world (variables tortilla_turn) OPENAI_API_KEY = Some (s2p ''sk-1'')"
    using demo_key(1) [of "s2p ''quiero hacer tortilla de patata''"]
    by (simp add: tortilla_turn_def)
  have c: "chat_create demo_world a b c = Inr [Some tortilla_answer]" for a b c
    by (simp add: demo_world_def)
  have ne: "tortilla_answer \<noteq> []" by (simp add: tortilla_answer_def)
  have x: "extract_json_array demo_world tortilla_answer = Inr (JArr (map JStr tortilla_items))"
    by (simp add: extract_json_array_def demo_world_def demo_loads_def)
  have n: "normalize_items demo_world (JArr (map JStr tortilla_items)) = tortilla_items"
    by (simp add: normalize_items_def tortilla_items_def demo_world_def strip_def is_space_def
          ascii_lower_def s2p_def)
  have t: "tortilla_items \<noteq> []" by (simp add: tortilla_items_def)
  have o: "open_write demo_world p q = None" for p q by (simp add: demo_world_def)
  show ?thesis
    using demo_key(2) g t
    by (simp add: lookup_reached_def k c raw_content_def ne x n o)
qed


section \<open>The search loop and the final response\<close>

text \<open>
  C6. In a turn that reaches the search loop, whatever the search provider does, each
  item gets its progress chunk and its result chunk, in the order of the items, and its
  entry in \<open>results_lines\<close>; an item whose search raises has the "No encontrado"
  chunk and line, the chunk and line of every item depending on the search for that
  item alone; and the turn ends with \<open>complete_response\<close>, without \<open>send_error\<close>.
\<close>

theorem search_failure_is_per_item:
  assumes "lookup_reached w data normalized"
  shows "chunks (process_message w data)
           = [analysing_msg, detected_header @ [10]]
             @ map (\<lambda>ing. s2p ''- '' @ ing @ [10]) normalized
             @ [saved_msg (length normalized)]
             @ concat (map (\<lambda>ing. [progress_chunk ing, item_chunk w (variables data) ing]) normalized)
         \<and> (\<forall>ing e. snd (serper_first_link w (ing @ s2p '' site:carrefour.es'') (variables data)) = Inl e
               \<longrightarrow> item_chunk w (variables data) ing = not_found_chunk ing
                   \<and> item_line w (variables data) ing = not_found_line ing)
         \<and> snd (search_loop w (variables data) normalized (tr, [results_header]))
             = results_header # map (item_line w (variables data)) normalized
         \<and> filter is_error (process_message w data) = []
         \<and> (\<exists>t. last (process_message w data) = CompleteResponse t)"
proof -
  have 1: "chunks (process_message w data)
           = [analysing_msg, detected_header @ [10]]
             @ map (\<lambda>ing. s2p ''- '' @ ing @ [10]) normalized
             @ [saved_msg (length normalized)]
             @ concat (map (\<lambda>ing. [progress_chunk ing, item_chunk w (variables data) ing]) normalized)"
    by (simp add: process_message_lookup [OF assms] chunks_append stream_items_quiet
          concat_item_events_quiet)
  have 2: "\<forall>ing e. snd (serper_first_link w (ing @ s2p '' site:carrefour.es'') (variables data)) = Inl e
               \<longrightarrow> item_chunk w (variables data) ing = not_found_chunk ing
                   \<and> item_line w (variables data) ing = not_found_line ing"
    by (simp add: item_chunk_def item_line_def item_link_def)
  have 3: "snd (search_loop w (variables data) normalized (tr, [results_header]))
             = results_header # map (item_line w (variables data)) normalized"
    by (simp add: search_loop_eq)
  have a: "filter is_error xs = []" if "filter is_terminal xs = []" for xs
    using that
  proof (induction xs)
    case Nil
    then show ?case by simp
  next
    case (Cons x xs)
    then show ?case by (cases x) (simp_all split: if_splits)
  qed
  have 4: "filter is_error (process_message w data) = []"
    by (simp add: process_message_lookup [OF assms] a stream_items_quiet concat_item_events_quiet)
  have 5: "\<exists>t. last (process_message w data) = CompleteResponse t"
    by (simp add: process_message_lookup [OF assms])
  from 1 2 3 4 5 show ?thesis by blast
qed

lemma demo_searches:
  "serper_first_link demo_world (s2p ''huevos'' @ s2p '' site:carrefour.es'') demo_variables
     = ([SearchRequest search_url
           (JObj [(s2p ''q'', JStr (s2p ''huevos site:carrefour.es'')), (s2p ''num'', JInt 5)])],
        Inr (JStr (s2p ''https://www.carrefour.es/huevos'')))"
  "serper_first_link demo_world (s2p ''patatas'' @ s2p '' site:carrefour.es'') demo_variables
     = ([SearchRequest search_url
           (JObj [(s2p ''q'', JStr (s2p ''patatas site:carrefour.es'')), (s2p ''num'', JInt 5)])],
        Inl (ExternalError (s2p ''503 Server Error'')))"
  "serper_first_link demo_world (s2p ''cebolla'' @ s2p '' site:carrefour.es'') demo_variables
     = ([SearchRequest search_url
           (JObj [(s2p ''q'', JStr (s2p ''cebolla site:carrefour.es'')), (s2p ''num'', JInt 5)])],
        Inr JNull)"
  "serper_first_link demo_world (s2p ''aceite de oliva'' @ s2p '' site:carrefour.es'') demo_variables
     = ([SearchRequest search_url
           (JObj [(s2p ''q'', JStr (s2p ''aceite de oliva site:carrefour.es'')), (s2p ''num'', JInt 5)])],
        Inr JNull)"
  "serper_first_link demo_world (s2p ''sal'' @ s2p '' site:carrefour.es'') demo_variables
     = ([SearchRequest search_url
           (JObj [(s2p ''q'', JStr (s2p ''sal site:carrefour.es'')), (s2p ''num'', JInt 5)])],
        Inr JNull)"
  by (simp_all add: serper_first_link_def demo_world_def demo_variables_def demo_post_def
        SERPER_API_KEY_def OPENAI_API_KEY_def search_url_def images_url_def s2p_def
        dict_get_def py_or_def Let_def)

lemma tortilla_variables: "variables tortilla_turn = demo_variables"
  by (simp add: tortilla_turn_def demo_turn_def)

theorem search_failure_is_per_item_witness:
  "lookup_reached demo_world tortilla_turn tortilla_items
   \<and> snd (serper_first_link demo_world (s2p ''patatas'' @ s2p '' site:carrefour.es'') demo_variables)
       = Inl (ExternalError (s2p ''503 Server Error''))
   \<and> item_chunk demo_world demo_variables (s2p ''patatas'') = not_found_chunk (s2p ''patatas'')
   \<and> chunks (process_message demo_world tortilla_turn)
       = [analysing_msg, detected_header @ [10]]
         @ map (\<lambda>ing. s2p ''- '' @ ing @ [10]) tortilla_items
         @ [saved_msg (length tortilla_items)]
         @ concat (map (\<lambda>ing. [progress_chunk ing, item_chunk demo_world demo_variables ing])
             tortilla_items)
   \<and> (\<exists>t. last (process_message demo_world tortilla_turn) = CompleteResponse t)"
  using search_failure_is_per_item [OF demo_lookup_reached] demo_lookup_reached demo_searches(2)
  by (simp add: tortilla_variables)

lemma join_Cons: "join sep (x # xs) = x @ concat (map (\<lambda>y. sep @ y) xs)"
  by (induction xs arbitrary: x) simp_all

lemma final_response_sections:
  assumes "normalized \<noteq> []"
  shows "final_response normalized (results_header # map (item_line w vs) normalized)
           = composed_response w vs normalized"
proof -
  from assms obtain n ns where n: "normalized = n # ns" by (cases normalized) auto
  have m: "map (\<lambda>y. [10] @ s2p ''- '' @ y) ns = map (\<lambda>ing. 10 # s2p ''- '' @ ing) ns"
    by simp
  show ?thesis
    unfolding final_response_def composed_response_def n
    by (simp add: join_Cons comp_def)
qed

text \<open>
  C7. In a turn that reaches the search loop, the response that is recorded and
  completed is a function of the items and of their links: the header, one line for
  each item in order, an empty line, the header of the results, and one line for each
  item in the same order, which is the link line or the "No encontrado" line of that
  item. \<open>results_lines\<close> has one entry for each item after its header.
\<close>

theorem final_response_composition:
  assumes "lookup_reached w data normalized"
  shows "(\<exists>pre. process_message w data
            = pre @ [AddMessage (thread_id data) (s2p ''assistant'')
                       (composed_response w (variables data) normalized),
                     CompleteResponse (composed_response w (variables data) normalized)])
         \<and> final_response normalized (snd (search_loop w (variables data) normalized (tr, [results_header])))
             = composed_response w (variables data) normalized
         \<and> length (snd (search_loop w (variables data) normalized (tr, [results_header])))
             = 1 + length normalized
         \<and> (\<forall>i < length normalized.
               snd (search_loop w (variables data) normalized (tr, [results_header])) ! (1 + i)
                 = item_line w (variables data) (normalized ! i)
               \<and> (item_line w (variables data) (normalized ! i)
                    = found_line w (normalized ! i) (item_link w (variables data) (normalized ! i))
                  \<or> item_line w (variables data) (normalized ! i) = not_found_line (normalized ! i)))"
proof -
  from assms have ne: "normalized \<noteq> []"
    by (auto simp: lookup_reached_def split: option.splits sum.splits list.splits)
  have f: "final_response normalized (results_header # map (item_line w (variables data)) normalized)
             = composed_response w (variables data) normalized"
    by (rule final_response_sections [OF ne])
  have 1: "\<exists>pre. process_message w data
            = pre @ [AddMessage (thread_id data) (s2p ''assistant'')
                       (composed_response w (variables data) normalized),
                     CompleteResponse (composed_response w (variables data) normalized)]"
    unfolding process_message_lookup [OF assms] f by (metis append_assoc)
  have 2: "\<forall>i < length normalized.
               snd (search_loop w (variables data) normalized (tr, [results_header])) ! (1 + i)
                 = item_line w (variables data) (normalized ! i)
               \<and> (item_line w (variables data) (normalized ! i)
                    = found_line w (normalized ! i) (item_link w (variables data) (normalized ! i))
                  \<or> item_line w (variables data) (normalized ! i) = not_found_line (normalized ! i))"
    by (simp add: search_loop_eq item_line_def Let_def)
  from 1 2 f show ?thesis by (simp add: search_loop_eq)
qed

lemma s2p_append: "s2p (a @ b) = s2p a @ s2p b"
  by (simp add: s2p_def)

lemma demo_item_links:
  "item_link demo_world demo_variables (s2p ''huevos'') = JStr (s2p ''https://www.carrefour.es/huevos'')"
  "item_link demo_world demo_variables (s2p ''patatas'') = JNull"
  "item_link demo_world demo_variables (s2p ''cebolla'') = JNull"
  "item_link demo_world demo_variables (s2p ''aceite de oliva'') = JNull"
  "item_link demo_world demo_variables (s2p ''sal'') = JNull"
  by (simp_all add: item_link_def demo_searches)

lemma huevos_link_truthy: "s2p ''https://www.carrefour.es/huevos'' \<noteq> []"
  by (simp add: s2p_def)

lemma demo_item_lines:
  "item_line demo_world demo_variables (s2p ''huevos'') = s2p ''- huevos: https://www.carrefour.es/huevos''"
  "item_line demo_world demo_variables (s2p ''patatas'') = s2p ''- patatas: No encontrado''"
  "item_line demo_world demo_variables (s2p ''cebolla'') = s2p ''- cebolla: No encontrado''"
  "item_line demo_world demo_variables (s2p ''aceite de oliva'') = s2p ''- aceite de oliva: No encontrado''"
  "item_line demo_world demo_variables (s2p ''sal'') = s2p ''- sal: No encontrado''"
  by (simp_all add: item_line_def demo_item_links huevos_link_truthy found_line_def
        not_found_line_def s2p_append [symmetric])

lemma tortilla_composed:
  "composed_response demo_world demo_variables tortilla_items = tortilla_response"
  by (simp add: composed_response_def tortilla_items_def demo_item_lines tortilla_response_def
        s2p_append [symmetric])

theorem final_response_composition_witness:
  "lookup_reached demo_world tortilla_turn tortilla_items
   \<and> (\<exists>pre. process_message demo_world tortilla_turn
          = pre @ [AddMessage (thread_id tortilla_turn) (s2p ''assistant'') tortilla_response,
                   CompleteResponse tortilla_response])
   \<and> length (snd (search_loop demo_world demo_variables tortilla_items ([], [results_header])))
       = 1 + length tortilla_items"
  using final_response_composition [OF demo_lookup_reached, of "[]"] demo_lookup_reached
  by (simp only: tortilla_variables tortilla_composed simp_thms)



section \<open>Keeping the first of each key\<close>

lemma keep_first_subseq: "subseq (keep_first key seen xs) xs"
  by (induction xs arbitrary: seen) auto

lemma keep_first_subset: "set (keep_first key seen xs) \<subseteq> set xs"
  by (induction xs arbitrary: seen) auto

lemma keep_first_keys: "key ` set (keep_first key seen xs) = key ` set xs - seen"
  by (induction xs arbitrary: seen) auto


lemma keep_first_distinct: "distinct (map key (keep_first key seen xs))"
proof (induction xs arbitrary: seen)
  case Nil
  then show ?case by simp
next
  case (Cons x xs)
  have "key x \<notin> key ` set (keep_first key (insert (key x) seen) xs)"
    by (simp add: keep_first_keys)
  with Cons show ?case by simp
qed

lemma keep_first_first:
  "x \<in> set (keep_first key seen xs) \<Longrightarrow>
     \<exists>pre post. xs = pre @ x # post \<and> key x \<notin> key ` set pre"
proof (induction xs arbitrary: seen)
  case Nil
  then show ?case by simp
next
  case (Cons a xs)
  show ?case
  proof (cases "key a \<in> seen")
    case True
    with Cons.prems have m: "x \<in> set (keep_first key seen xs)" by simp
    then obtain pre post where p: "xs = pre @ x # post" "key x \<notin> key ` set pre"
      using Cons.IH by blast
    from m have "key x \<in> key ` set xs - seen" using keep_first_keys [of key seen xs] by blast
    with True have "key x \<noteq> key a" by auto
    with p have "a # xs = (a # pre) @ x # post \<and> key x \<notin> key ` set (a # pre)" by simp
    then show ?thesis by blast
  next
    case False
    with Cons.prems have "x = a \<or> x \<in> set (keep_first key (insert (key a) seen) xs)" by simp
    then show ?thesis
    proof
      assume "x = a"
      then have "a # xs = [] @ x # xs \<and> key x \<notin> key ` set []" by simp
      then show ?thesis by blast
    next
      assume m: "x \<in> set (keep_first key (insert (key a) seen) xs)"
      then obtain pre post where p: "xs = pre @ x # post" "key x \<notin> key ` set pre"
        using Cons.IH by blast
      from m have "key x \<in> key ` set xs - insert (key a) seen"
        using keep_first_keys [of key "insert (key a) seen" xs] by blast
      then have "key x \<noteq> key a" by auto
      with p have "a # xs = (a # pre) @ x # post \<and> key x \<notin> key ` set (a # pre)" by simp
      then show ?thesis by blast
    qed
  qed
qed

section \<open>The normalised item list\<close>

lemma strip_not_blank: "strip s \<noteq> [] \<Longrightarrow> \<not> blank (strip s)"
proof -
  assume ne: "strip s \<noteq> []"
  define t where "t = rev (dropWhile is_space s)"
  from ne have d: "dropWhile is_space t \<noteq> []" by (simp add: strip_def t_def)
  then have "\<not> is_space (hd (dropWhile is_space t))" by (rule hd_dropWhile)
  moreover have "hd (dropWhile is_space t) \<in> set (strip s)"
    using d by (simp add: strip_def t_def [symmetric])
  ultimately show ?thesis by (auto simp: blank_def list_all_iff)
qed

lemma strip_idem: "strip (strip s) = strip s"
proof -
  define t where "t = rev (dropWhile is_space s)"
  define u where "u = dropWhile is_space t"
  have s: "strip s = rev u" by (simp add: strip_def t_def u_def)
  have u_hd: "u = [] \<or> \<not> is_space (hd u)"
    unfolding u_def using hd_dropWhile [of is_space t] by blast
  have ru: "rev u = [] \<or> \<not> is_space (hd (rev u))"
  proof (cases "u = []")
    case True
    then show ?thesis by simp
  next
    case False
    have "last u \<in> set t" using False unfolding u_def
      by (metis last_in_set set_dropWhileD)
    moreover have "t = [] \<or> \<not> is_space (last t)"
      unfolding t_def using hd_dropWhile [of is_space s] by (auto simp: last_rev)
    moreover have "last u = last t" using False unfolding u_def
      by (metis takeWhile_dropWhile_id last_appendR)
    ultimately show ?thesis using False by (auto simp: hd_rev)
  qed
  have 1: "dropWhile is_space (rev u) = rev u"
    using ru by (cases "rev u") auto
  have 2: "dropWhile is_space u = u"
    using u_hd by (cases u) auto
  show ?thesis unfolding s by (simp add: strip_def 1 2)
qed

lemma normalize_loop_keep_first:
  "normalize_loop w items seen normalized
     = normalized @ keep_first (str_lower w) seen (candidates w items)"
  by (induction items arbitrary: seen normalized)
     (auto simp: candidates_def List.map_filter_simps split: option.splits)

lemma normalize_keep_first:
  "normalize_items w ingredients = keep_first (str_lower w) {} (candidates w (as_list ingredients))"
  by (simp add: normalize_items_def normalize_loop_keep_first)

lemma candidates_origin:
  "x \<in> set (candidates w items) \<Longrightarrow>
     x \<noteq> [] \<and>
     (\<exists>item \<in> set items.
        (\<exists>s. item = JStr s \<and> x = strip s) \<or>
        (\<exists>kvs v. item = JObj kvs \<and> map_of kvs (s2p ''name'') = Some v \<and> x = strip (py_str w v)))"
proof (induction items)
  case Nil
  then show ?case by (simp add: candidates_def List.map_filter_simps)
next
  case (Cons item items)
  show ?case
  proof (cases "x \<in> set (candidates w items)")
    case True
    with Cons.IH show ?thesis by auto
  next
    case False
    with Cons.prems have "item_name w item = Some x" and "x \<noteq> []"
      by (auto simp: candidates_def List.map_filter_simps split: option.splits)
    then show ?thesis
      by (cases item) (auto split: option.splits)
  qed
qed

text \<open>
  C5. The normalisation takes a name from an element only if the element is a string
  (the string, stripped) or an object with a \<open>name\<close> field (the \<open>str\<close> of the field,
  stripped), and drops the empty names. Of the names left it keeps the first of each
  lower-cased form, in their order. So the result has no blank entry, every entry is
  stripped, and no two entries have the same lower-cased form.
\<close>

theorem normalized_items_distinct_nonblank:
  "subseq (normalize_items w ingredients) (candidates w (as_list ingredients))
   \<and> distinct (map (str_lower w) (normalize_items w ingredients))
   \<and> str_lower w ` set (normalize_items w ingredients)
       = str_lower w ` set (candidates w (as_list ingredients))
   \<and> (\<forall>x \<in> set (normalize_items w ingredients).
         \<exists>pre post. candidates w (as_list ingredients) = pre @ x # post
                    \<and> str_lower w x \<notin> str_lower w ` set pre)
   \<and> (\<forall>x \<in> set (normalize_items w ingredients).
         \<not> blank x \<and> strip x = x \<and>
         (\<exists>item \<in> set (as_list ingredients).
            (\<exists>s. item = JStr s \<and> x = strip s) \<or>
            (\<exists>kvs v. item = JObj kvs \<and> map_of kvs (s2p ''name'') = Some v
                      \<and> x = strip (py_str w v))))"
proof -
  let ?c = "candidates w (as_list ingredients)"
  have 1: "subseq (normalize_items w ingredients) ?c"
    by (simp add: normalize_keep_first keep_first_subseq)
  have 2: "distinct (map (str_lower w) (normalize_items w ingredients))"
    by (simp add: normalize_keep_first keep_first_distinct)
  have 3: "str_lower w ` set (normalize_items w ingredients) = str_lower w ` set ?c"
    by (simp add: normalize_keep_first keep_first_keys)
  have 4: "\<forall>x \<in> set (normalize_items w ingredients).
         \<exists>pre post. ?c = pre @ x # post \<and> str_lower w x \<notin> str_lower w ` set pre"
    using keep_first_first [of _ "str_lower w" "{}" ?c] by (simp add: normalize_keep_first)
  have 5: "\<not> blank x \<and> strip x = x \<and>
         (\<exists>item \<in> set (as_list ingredients).
            (\<exists>s. item = JStr s \<and> x = strip s) \<or>
            (\<exists>kvs v. item = JObj kvs \<and> map_of kvs (s2p ''name'') = Some v
                      \<and> x = strip (py_str w v)))"
    if "x \<in> set (normalize_items w ingredients)" for x
  proof -
    from that have "x \<in> set ?c"
      using keep_first_subset [of "str_lower w" "{}" ?c] by (auto simp: normalize_keep_first)
    from candidates_origin [OF this]
    have ne: "x \<noteq> []" and o: "\<exists>item \<in> set (as_list ingredients).
            (\<exists>s. item = JStr s \<and> x = strip s) \<or>
            (\<exists>kvs v. item = JObj kvs \<and> map_of kvs (s2p ''name'') = Some v
                      \<and> x = strip (py_str w v))"
      by blast+
    from o obtain s where s: "x = strip s" by blast
    with ne have "\<not> blank x" using strip_not_blank by simp
    moreover from s have "strip x = x" by (simp add: strip_idem)
    ultimately show ?thesis using o by blast
  qed
  from 1 2 3 4 5 show ?thesis by blast
qed


lemma mixed_answer_normalized:
  "normalize_items demo_world mixed_answer = [s2p ''Huevos'', s2p ''Sal'', s2p ''patatas'']"
  by (simp add: normalize_items_def mixed_answer_def demo_world_def strip_def is_space_def
        ascii_lower_def s2p_def)

theorem normalized_items_distinct_nonblank_witness:
  "normalize_items demo_world mixed_answer = [s2p ''Huevos'', s2p ''Sal'', s2p ''patatas'']
   \<and> distinct (map (str_lower demo_world) [s2p ''Huevos'', s2p ''Sal'', s2p ''patatas''])
   \<and> \<not> blank (s2p ''Huevos'') \<and> \<not> blank (s2p ''Sal'') \<and> \<not> blank (s2p ''patatas'')"
  using normalized_items_distinct_nonblank [of demo_world mixed_answer]
  by (simp add: mixed_answer_normalized)

section \<open>\<open>_parse_menu_items\<close>\<close>













section \<open>What stripping and price removal leave in place\<close>






















section \<open>\<open>_serper_image_search\<close>\<close>

lemma lowered_field_well_formed:
  assumes "well_formed_image (JObj kvs)"
  shows "\<exists>t s. lowered_field w kvs (s2p ''title'') = Inr t
             \<and> lowered_field w kvs (s2p ''source'') = Inr s"
  using assms
  by (auto simp: lowered_field_def dict_get_def split: option.splits json.splits)

lemma pick_food_image_find:
  assumes "\<forall>img \<in> set imgs. well_formed_image img"
  shows "pick_food_image w imgs = Inr (map_option url_of (find (food_image w) imgs))"
  using assms
proof (induction imgs)
  case Nil
  then show ?case by simp
next
  case (Cons img imgs)
  from Cons.prems have wf: "well_formed_image img" by simp
  then obtain kvs where k: "img = JObj kvs" by (cases img) auto
  from lowered_field_well_formed [of kvs w] wf k obtain t s
    where ts: "lowered_field w kvs (s2p ''title'') = Inr t"
              "lowered_field w kvs (s2p ''source'') = Inr s"
    by blast
  from Cons have ih: "pick_food_image w imgs = Inr (map_option url_of (find (food_image w) imgs))"
    by simp
  show ?case by (simp add: k ts ih)
qed

text \<open>
  C8, as the code has it. With the key present, for a response whose image records are
  objects with a string as title and as source where they have one:
  \<open>_serper_image_search\<close> returns \<open>None\<close> when the provider yields no image;
  otherwise it returns the URL of the first image whose lower-cased title or source
  contains a food keyword, or of the first image when there is none, the URL of an image
  being its \<open>imageUrl\<close>, else its \<open>thumbnailUrl\<close>, else its \<open>link\<close>, and
  \<open>None\<close> when the image has none of the three.
\<close>

theorem image_search_selection:
  assumes "variables_get w vs SERPER_API_KEY = Some api_key"
    and "api_key \<noteq> []"
    and "requests_post w images_url api_key (image_payload query) = Inr (JObj kvs)"
    and "py_or (dict_get kvs (s2p ''images'') JNull) (JArr []) = JArr imgs"
    and "\<forall>img \<in> set imgs. well_formed_image img"
  shows "serper_image_search w query vs
           = Inr (case imgs of
                    [] \<Rightarrow> JNull
                  | first # _ \<Rightarrow>
                      (case find (food_image w) imgs of
                         Some img \<Rightarrow> url_of img
                       | None \<Rightarrow> url_of first))"
proof (cases imgs)
  case Nil
  with assms show ?thesis
    by (simp add: serper_image_search_def image_payload_def Let_def)
next
  case (Cons first rest)
  from assms(5) Cons have "well_formed_image first" by simp
  then obtain fk where fk: "first = JObj fk" by (cases first) auto
  have p: "pick_food_image w imgs = Inr (map_option url_of (find (food_image w) imgs))"
    by (rule pick_food_image_find [OF assms(5)])
  have s: "select_image w (JObj kvs)
      = Inr (case find (food_image w) imgs of Some img \<Rightarrow> url_of img | None \<Rightarrow> url_of first)"
    using assms(4) Cons fk p
    by (cases "find (food_image w) imgs") (simp_all add: Let_def)
  with assms(1-3) Cons show ?thesis
    by (simp add: serper_image_search_def image_payload_def Let_def)
qed

lemma gallery_facts:
  "variables_get gallery_world demo_variables SERPER_API_KEY = Some (s2p ''key-2'')"
  "s2p ''key-2'' \<noteq> []"
  "requests_post gallery_world images_url (s2p ''key-2'') (image_payload (s2p ''paella''))
     = Inr (JObj [(s2p ''images'', JArr gallery_images)])"
  "py_or (dict_get [(s2p ''images'', JArr gallery_images)] (s2p ''images'') JNull) (JArr [])
     = JArr gallery_images"
  "\<forall>img \<in> set gallery_images. well_formed_image img"
  by (simp_all add: gallery_world_def demo_world_def demo_variables_def SERPER_API_KEY_def
        OPENAI_API_KEY_def dict_get_def py_or_def gallery_images_def s2p_def)

lemma gallery_pick:
  "(case gallery_images of
      [] \<Rightarrow> JNull
    | first # _ \<Rightarrow>
        (case find (food_image gallery_world) gallery_images of
           Some img \<Rightarrow> url_of img
         | None \<Rightarrow> url_of first))
   = JStr (s2p ''https://img/2.jpg'')"
  by (simp add: gallery_images_def gallery_world_def demo_world_def lowered_field_def
        dict_get_def is_food_def food_keywords_def ascii_lower_def image_url_def py_or_def s2p_def)

theorem image_search_selection_witness:
  "requests_post gallery_world images_url (s2p ''key-2'') (image_payload (s2p ''paella''))
     = Inr (JObj [(s2p ''images'', JArr gallery_images)])
   \<and> list_all well_formed_image gallery_images
   \<and> serper_image_search gallery_world (s2p ''paella'') demo_variables
       = Inr (JStr (s2p ''https://img/2.jpg''))"
  using image_search_selection [OF gallery_facts] gallery_facts(3,5)
  by (simp only: gallery_pick simp_thms list_all_iff)

text \<open>
  C8 as stated has \<open>None\<close> returned only if the provider yields no image. Here the
  provider yields one image, a food image without any URL field, and the result is
  \<open>None\<close>.
\<close>

theorem image_without_url_counterexample:
  "requests_post demo_world images_url (s2p ''key-2'') (image_payload (s2p ''paella''))
     = Inr (JObj [(s2p ''images'', JArr [JObj [(s2p ''title'', JStr (s2p ''Food''))]])])
   \<and> serper_image_search demo_world (s2p ''paella'') demo_variables = Inr JNull"
  by (simp add: serper_image_search_def image_payload_def demo_world_def demo_post_def
        demo_variables_def SERPER_API_KEY_def OPENAI_API_KEY_def images_url_def
        lowered_field_def dict_get_def is_food_def food_keywords_def ascii_lower_def
        image_url_def py_or_def s2p_def Let_def)

end
